theory Spec2Isabelle
  imports Main "HOL-Library.Sublist" "HOL-Library.Multiset" "HOL-Library.Product_Lexorder"
begin

section \<open>Data model (server/src/db/schema.ts, server/src/schema.ts)\<close>

text \<open>
  Timestamps are milliseconds since the epoch. Monetary columns are
  \<^verbatim>\<open>numeric(10,2)\<close>: an amount is held as its number of cents, so that the
  two-decimal fixed-point value is exact; the handlers' arithmetic on the parsed
  numbers is taken to be exact as well, the column rounding the result to cents.
  Identifiers are integers (\<^verbatim>\<open>serial\<close> columns, \<^verbatim>\<open>z.number()\<close> at the boundary).
\<close>

type_synonym timestamp = int
type_synonym money = int

datatype user_role = super_admin | manager | staff

datatype request_status =
  pending | manager_approved | manager_rejected | admin_processing
  | purchased | received | cancelled

datatype manager_action = approve | reject

datatype admin_action = start_processing | mark_purchased | mark_received | cancel

record user =
  u_id :: int
  u_email :: string
  u_name :: string
  u_role :: user_role
  u_is_active :: bool
  u_created_at :: timestamp
  u_updated_at :: timestamp

record category =
  c_id :: int
  c_name :: string
  c_description :: "string option"
  c_is_active :: bool
  c_created_at :: timestamp
  c_updated_at :: timestamp

record item =
  i_id :: int
  i_name :: string
  i_description :: "string option"
  i_category_id :: int
  i_unit :: string
  i_estimated_price :: "money option"
  i_is_active :: bool
  i_created_at :: timestamp
  i_updated_at :: timestamp

record request =
  r_id :: int
  r_staff_id :: int
  r_title :: string
  r_justification :: "string option"
  r_status :: request_status
  r_manager_id :: "int option"
  r_manager_notes :: "string option"
  r_admin_id :: "int option"
  r_admin_notes :: "string option"
  r_total_estimated_cost :: "money option"
  r_actual_cost :: "money option"
  r_purchase_date :: "timestamp option"
  r_received_date :: "timestamp option"
  r_created_at :: timestamp
  r_updated_at :: timestamp

record request_item =
  ri_id :: int
  ri_request_id :: int
  ri_item_id :: int
  ri_quantity :: int
  ri_estimated_unit_cost :: "money option"
  ri_actual_unit_cost :: "money option"
  ri_notes :: "string option"
  ri_created_at :: timestamp

text \<open>
  The persistent store: one list of rows per table, in insertion order, and the
  next value of the two \<^verbatim>\<open>serial\<close> sequences the modelled handlers draw from.
\<close>

record db =
  usersTable :: "user list"
  categoriesTable :: "category list"
  itemsTable :: "item list"
  requestsTable :: "request list"
  requestItemsTable :: "request_item list"
  requests_id_seq :: int
  request_items_id_seq :: int

text \<open>
  The handlers throw plain \<^verbatim>\<open>Error(message)\<close> values. Each throw site is tagged
  here with the error kind it stands for (not found, forbidden, invalid state, a
  failure raised by the storage layer), next to the message of the source.
\<close>

datatype error_kind = NotFound | Forbidden | InvalidState | StorageError

datatype error = Error error_kind string

subsection \<open>Rendering of enum values and numbers inside messages\<close>

fun request_status_str :: "request_status \<Rightarrow> string" where
  "request_status_str pending = ''pending''"
| "request_status_str manager_approved = ''manager_approved''"
| "request_status_str manager_rejected = ''manager_rejected''"
| "request_status_str admin_processing = ''admin_processing''"
| "request_status_str purchased = ''purchased''"
| "request_status_str received = ''received''"
| "request_status_str cancelled = ''cancelled''"

fun admin_action_str :: "admin_action \<Rightarrow> string" where
  "admin_action_str start_processing = ''start_processing''"
| "admin_action_str mark_purchased = ''mark_purchased''"
| "admin_action_str mark_received = ''mark_received''"
| "admin_action_str cancel = ''cancel''"

definition apostrophe :: string where
  "apostrophe = [CHR 0x27]"

text \<open>
  An integral JavaScript number inside a template string: its decimal digits, most
  significant first, after a minus sign when it is negative.
\<close>

definition digit_char :: "nat \<Rightarrow> char" where
  "digit_char k = ''0123456789'' ! (k mod 10)"

function decimal_digits :: "nat \<Rightarrow> string \<Rightarrow> string" where
  "decimal_digits n acc =
     (if n < 10 then digit_char n # acc else decimal_digits (n div 10) (digit_char n # acc))"
  by pat_completeness auto
termination
  by (relation "measure fst") auto

definition number_str :: "int \<Rightarrow> string" where
  "number_str i =
     (if 0 \<le> i then decimal_digits (nat i) [] else CHR ''-'' # decimal_digits (nat (- i)) [])"

subsection \<open>Lookups shared by the handlers\<close>

text \<open>\<^verbatim>\<open>db.select().from(t).where(eq(t.id, x))\<close>: the rows with that id, in table order.\<close>

definition select_users_by_id :: "int \<Rightarrow> db \<Rightarrow> user list" where
  "select_users_by_id x d = filter (\<lambda>u. u_id u = x) (usersTable d)"

definition select_requests_by_id :: "int \<Rightarrow> db \<Rightarrow> request list" where
  "select_requests_by_id x d = filter (\<lambda>r. r_id r = x) (requestsTable d)"

text \<open>\<^verbatim>\<open>rows[0]\<close> of a select by id, when there is one.\<close>

definition find_request :: "int \<Rightarrow> db \<Rightarrow> request option" where
  "find_request x d = (case select_requests_by_id x d of [] \<Rightarrow> None | r # _ \<Rightarrow> Some r)"

definition find_user :: "int \<Rightarrow> db \<Rightarrow> user option" where
  "find_user x d = (case select_users_by_id x d of [] \<Rightarrow> None | u # _ \<Rightarrow> Some u)"

subsection \<open>Column types checked by the storage\<close>

text \<open>
  A value out of the range of its column makes the whole statement fail. An
  \<^verbatim>\<open>integer\<close> or \<^verbatim>\<open>serial\<close> column, and a parameter compared with one, holds
  32-bit signed values, while the input schemas accept any number for an id and
  bound a quantity from below only. A \<^verbatim>\<open>numeric(10,2)\<close> column holds at most eight
  digits before the decimal point.
\<close>

definition integer_column :: "int \<Rightarrow> bool" where
  "integer_column n \<longleftrightarrow> - 2147483648 \<le> n \<and> n \<le> 2147483647"

definition numeric_column :: "money option \<Rightarrow> bool" where
  "numeric_column v = (case v of None \<Rightarrow> True | Some n \<Rightarrow> - 10000000000 < n \<and> n < 10000000000)"

section \<open>Admin processing (handlers/admin_process_request.ts)\<close>

text \<open>
  The payload. A field that is \<^verbatim>\<open>.nullable().optional()\<close> has three shapes, which
  the handler tells apart: \<open>None\<close> is \<^verbatim>\<open>undefined\<close> (absent), \<open>Some None\<close> is an
  explicit \<^verbatim>\<open>null\<close>, \<open>Some (Some v)\<close> is a value.
\<close>

record admin_process_input =
  ap_request_id :: int
  ap_admin_id :: int
  ap_action :: admin_action
  ap_notes :: "string option option"
  ap_actual_cost :: "money option option"
  ap_purchase_date :: "timestamp option option"
  ap_received_date :: "timestamp option option"

text \<open>
  \<^verbatim>\<open>validTransitions[request.status]\<close>: the record has five keys; a status that is
  not a key yields \<^verbatim>\<open>undefined\<close>, here \<open>None\<close>.
\<close>

fun validTransitions :: "request_status \<Rightarrow> admin_action list option" where
  "validTransitions manager_approved = Some [start_processing, cancel]"
| "validTransitions admin_processing = Some [mark_purchased, cancel]"
| "validTransitions purchased = Some [mark_received, cancel]"
| "validTransitions received = Some []"
| "validTransitions cancelled = Some []"
| "validTransitions pending = None"
| "validTransitions manager_rejected = None"

definition allowedActions :: "request_status \<Rightarrow> admin_action list" where
  "allowedActions s = (case validTransitions s of Some as \<Rightarrow> as | None \<Rightarrow> [])"

fun newStatus :: "admin_action \<Rightarrow> request_status" where
  "newStatus start_processing = admin_processing"
| "newStatus mark_purchased = purchased"
| "newStatus mark_received = received"
| "newStatus cancel = cancelled"

definition invalid_transition_message :: "admin_action \<Rightarrow> request_status \<Rightarrow> string" where
  "invalid_transition_message a s =
     ''Cannot perform action '' @ apostrophe @ admin_action_str a @ apostrophe
       @ '' on request with status '' @ apostrophe @ request_status_str s @ apostrophe"

text \<open>
  \<^verbatim>\<open>updateData\<close> applied to one row: status, admin_id and updated_at always, the four
  optional fields only when the payload has them (\<^verbatim>\<open>!== undefined\<close>).
\<close>

definition admin_updateData :: "timestamp \<Rightarrow> admin_process_input \<Rightarrow> request \<Rightarrow> request" where
  "admin_updateData now input r =
     r\<lparr> r_status := newStatus (ap_action input),
        r_admin_id := Some (ap_admin_id input),
        r_updated_at := now,
        r_admin_notes := (case ap_notes input of None \<Rightarrow> r_admin_notes r | Some v \<Rightarrow> v),
        r_actual_cost := (case ap_actual_cost input of None \<Rightarrow> r_actual_cost r | Some v \<Rightarrow> v),
        r_purchase_date := (case ap_purchase_date input of None \<Rightarrow> r_purchase_date r | Some v \<Rightarrow> v),
        r_received_date := (case ap_received_date input of None \<Rightarrow> r_received_date r | Some v \<Rightarrow> v) \<rparr>"

text \<open>\<^verbatim>\<open>db.update(requestsTable).set(f).where(eq(requestsTable.id, x))\<close>.\<close>

definition update_requests_by_id :: "int \<Rightarrow> (request \<Rightarrow> request) \<Rightarrow> db \<Rightarrow> db" where
  "update_requests_by_id x f d =
     d\<lparr> requestsTable := map (\<lambda>r. if r_id r = x then f r else r) (requestsTable d) \<rparr>"

text \<open>The value a payload field writes, if any: \<open>None\<close> when it is absent or \<^verbatim>\<open>null\<close>.\<close>

definition supplied_value :: "'a option option \<Rightarrow> 'a option" where
  "supplied_value v = (case v of None \<Rightarrow> None | Some w \<Rightarrow> w)"

text \<open>
  The handler. \<open>now\<close> is the value of \<^verbatim>\<open>new Date()\<close>. The result pairs what the
  promise settles to (\<open>Inl\<close>: the error thrown) with the store afterwards. The
  \<^verbatim>\<open>default\<close> branch of the switch cannot be reached: the action type has the four
  cases only. The update statement writes \<^verbatim>\<open>actual_cost\<close> into a
  \<^verbatim>\<open>numeric(10,2)\<close> column, while the input schema only asks for a positive
  number: an amount out of range makes the statement fail and nothing is written.
  The numeric fields of the returned row are converted from their column strings,
  which leaves the amount as it is.
\<close>

definition adminProcessRequest ::
  "timestamp \<Rightarrow> admin_process_input \<Rightarrow> db \<Rightarrow> (error + request) \<times> db" where
  "adminProcessRequest now input d =
     (case select_users_by_id (ap_admin_id input) d of
        [] \<Rightarrow> (Inl (Error Forbidden ''Admin user not found''), d)
      | adminUser # _ \<Rightarrow>
          if u_role adminUser \<noteq> super_admin
          then (Inl (Error Forbidden ''Only Super Admin can process requests''), d)
          else
            (case select_requests_by_id (ap_request_id input) d of
               [] \<Rightarrow> (Inl (Error NotFound ''Request not found''), d)
             | request # _ \<Rightarrow>
                 if ap_action input \<notin> set (allowedActions (r_status request))
                 then (Inl (Error InvalidState
                         (invalid_transition_message (ap_action input) (r_status request))), d)
                 else if \<not> numeric_column (supplied_value (ap_actual_cost input))
                 then (Inl (Error StorageError ''numeric field overflow''), d)
                 else
                   (let d' = update_requests_by_id (ap_request_id input)
                               (admin_updateData now input) d
                    in case select_requests_by_id (ap_request_id input) d' of
                         [] \<Rightarrow> (Inl (Error StorageError ''Failed to update request''), d')
                       | updatedRequest # _ \<Rightarrow> (Inr updatedRequest, d'))))"


section \<open>Manager decision (handlers/manager_action_on_request.ts)\<close>

text \<open>
  \<^verbatim>\<open>notes\<close> is optional and nullable; the handler stores \<^verbatim>\<open>input.notes || null\<close>,
  which does not tell \<^verbatim>\<open>undefined\<close> from \<^verbatim>\<open>null\<close>, so both are \<open>None\<close> here.
\<close>

record manager_action_input =
  ma_request_id :: int
  ma_manager_id :: int
  ma_action :: manager_action
  ma_notes :: "string option"

text \<open>\<^verbatim>\<open>s || null\<close> on an optional string: the empty string is falsy too.\<close>

definition or_null :: "string option \<Rightarrow> string option" where
  "or_null v = (case v of None \<Rightarrow> None | Some s \<Rightarrow> if s = [] then None else Some s)"

definition manager_updateData :: "timestamp \<Rightarrow> manager_action_input \<Rightarrow> request \<Rightarrow> request" where
  "manager_updateData now input r =
     r\<lparr> r_status := (if ma_action input = approve then manager_approved else manager_rejected),
        r_manager_id := Some (ma_manager_id input),
        r_manager_notes := or_null (ma_notes input),
        r_updated_at := now \<rparr>"

text \<open>
  The handler reads \<^verbatim>\<open>result[0]\<close> of the update without a length check; on an
  empty result the conversion of its fields would throw, which is the last branch.
\<close>

definition managerActionOnRequest ::
  "timestamp \<Rightarrow> manager_action_input \<Rightarrow> db \<Rightarrow> (error + request) \<times> db" where
  "managerActionOnRequest now input d =
     (case select_requests_by_id (ma_request_id input) d of
        [] \<Rightarrow> (Inl (Error NotFound
                 (''Request with ID '' @ number_str (ma_request_id input) @ '' not found'')), d)
      | request # _ \<Rightarrow>
          if r_status request \<noteq> pending
          then (Inl (Error InvalidState
                  (''Request '' @ number_str (ma_request_id input)
                     @ '' is not in pending status. Current status: ''
                     @ request_status_str (r_status request))), d)
          else
            (case filter (\<lambda>u. u_id u = ma_manager_id input \<and> u_role u = manager \<and> u_is_active u)
                    (usersTable d) of
               [] \<Rightarrow> (Inl (Error Forbidden
                        (''Manager with ID '' @ number_str (ma_manager_id input)
                           @ '' not found or not active'')), d)
             | _ # _ \<Rightarrow>
                 (let d' = update_requests_by_id (ma_request_id input)
                             (manager_updateData now input) d
                  in case select_requests_by_id (ma_request_id input) d' of
                       [] \<Rightarrow> (Inl (Error StorageError ''update returned no row''), d')
                     | updatedRequest # _ \<Rightarrow> (Inr updatedRequest, d'))))"

section \<open>Request creation (handlers/create_request.ts)\<close>

record line_item_input =
  li_item_id :: int
  li_quantity :: int
  li_notes :: "string option"

record create_request_input =
  cr_staff_id :: int
  cr_title :: string
  cr_justification :: "string option"
  cr_items :: "line_item_input list"

text \<open>
  \<^verbatim>\<open>createRequestInputSchema\<close>, which the router applies before the handler runs: a
  non-empty title, at least one line item, every quantity a positive integer.
\<close>

definition createRequestInputSchema :: "create_request_input \<Rightarrow> bool" where
  "createRequestInputSchema input \<longleftrightarrow>
     cr_title input \<noteq> [] \<and> cr_items input \<noteq> []
     \<and> list_all (\<lambda>li. 0 < li_quantity li) (cr_items input)"

text \<open>
  \<^verbatim>\<open>new Map(items.map(item => [item.id, price]))\<close>: a later pair replaces an earlier
  one with the same key. A lookup yields \<open>None\<close> for \<^verbatim>\<open>undefined\<close>, \<open>Some None\<close> for
  a \<^verbatim>\<open>null\<close> price and \<open>Some (Some p)\<close> for a price. The price string of a row is
  never empty, so its truthiness test keeps every non-null price, zero included.
\<close>

definition itemPriceMap :: "item list \<Rightarrow> int \<Rightarrow> money option option" where
  "itemPriceMap found = fold (\<lambda>i m. m(i_id i \<mapsto> i_estimated_price i)) found Map.empty"

definition hasAllPrices :: "(int \<Rightarrow> money option option) \<Rightarrow> line_item_input list \<Rightarrow> bool" where
  "hasAllPrices m lis =
     list_all (\<lambda>reqItem. case m (li_item_id reqItem) of Some (Some p) \<Rightarrow> True | _ \<Rightarrow> False) lis"

text \<open>
  The \<^verbatim>\<open>reduce\<close> from 0. It runs only when every lookup gave a price; the other two
  branches of the lookup are there to make the function total.
\<close>

definition sum_costs :: "(int \<Rightarrow> money option option) \<Rightarrow> line_item_input list \<Rightarrow> money" where
  "sum_costs m lis =
     fold (\<lambda>reqItem acc.
             acc + (case m (li_item_id reqItem) of Some (Some p) \<Rightarrow> p | _ \<Rightarrow> 0)
                       * li_quantity reqItem) lis 0"

definition totalEstimatedCost ::
  "(int \<Rightarrow> money option option) \<Rightarrow> line_item_input list \<Rightarrow> money option" where
  "totalEstimatedCost m lis = (if hasAllPrices m lis then Some (sum_costs m lis) else None)"

text \<open>\<^verbatim>\<open>n ? n.toString() : null\<close> on a nullable number: zero is falsy.\<close>

definition truthy_amount :: "money option \<Rightarrow> money option" where
  "truthy_amount v = (case v of None \<Rightarrow> None | Some n \<Rightarrow> if n = 0 then None else Some n)"

text \<open>
  \<^verbatim>\<open>m.get(id)?.toString() || null\<close>: the string of a number is never empty, so
  only a missing or \<^verbatim>\<open>null\<close> price gives \<^verbatim>\<open>null\<close>.
\<close>

definition snapshot_price :: "(int \<Rightarrow> money option option) \<Rightarrow> int \<Rightarrow> money option" where
  "snapshot_price m x = (case m x of Some (Some p) \<Rightarrow> Some p | _ \<Rightarrow> None)"

text \<open>The row the first insert creates; the columns it does not name take their defaults.\<close>

definition new_request :: "timestamp \<Rightarrow> create_request_input \<Rightarrow> money option \<Rightarrow> int \<Rightarrow> request" where
  "new_request now input estimate n =
     \<lparr> r_id = n, r_staff_id = cr_staff_id input, r_title = cr_title input,
       r_justification = or_null (cr_justification input), r_status = pending,
       r_manager_id = None, r_manager_notes = None, r_admin_id = None, r_admin_notes = None,
       r_total_estimated_cost = estimate, r_actual_cost = None,
       r_purchase_date = None, r_received_date = None,
       r_created_at = now, r_updated_at = now \<rparr>"

definition new_request_item ::
  "timestamp \<Rightarrow> (int \<Rightarrow> money option option) \<Rightarrow> int \<Rightarrow> int \<Rightarrow> line_item_input \<Rightarrow> request_item" where
  "new_request_item now m request_id n li =
     \<lparr> ri_id = n, ri_request_id = request_id, ri_item_id = li_item_id li,
       ri_quantity = li_quantity li, ri_estimated_unit_cost = snapshot_price m (li_item_id li),
       ri_actual_unit_cost = None, ri_notes = or_null (li_notes li), ri_created_at = now \<rparr>"

text \<open>
  \<^verbatim>\<open>db.insert(requestItemsTable).values(rows)\<close>: one statement, so all rows or none;
  the query builder refuses an empty list of rows. Ids are drawn from the sequence
  in row order. The two messages stand for the ones of the query builder and of the
  storage.
\<close>

definition insert_request_items ::
  "timestamp \<Rightarrow> (int \<Rightarrow> money option option) \<Rightarrow> int \<Rightarrow> line_item_input list \<Rightarrow> db \<Rightarrow> error + db" where
  "insert_request_items now m request_id lis d =
     (if lis = [] then Inl (Error StorageError ''values() must be called with at least one value'')
      else if \<not> list_all (\<lambda>li. integer_column (li_quantity li)) lis
      then Inl (Error StorageError ''integer out of range'')
      else Inr (d\<lparr> requestItemsTable := requestItemsTable d
                      @ map (\<lambda>(k, li). new_request_item now m request_id
                                         (request_items_id_seq d + int k) li)
                          (enumerate 0 lis),
                    request_items_id_seq := request_items_id_seq d + int (length lis) \<rparr>))"

text \<open>The two validation queries: active users with the given id, active items among the given ids.\<close>

definition select_active_user :: "int \<Rightarrow> db \<Rightarrow> user list" where
  "select_active_user x d = filter (\<lambda>u. u_id u = x \<and> u_is_active u) (usersTable d)"

definition select_active_items :: "int list \<Rightarrow> db \<Rightarrow> item list" where
  "select_active_items ids d = filter (\<lambda>i. i_id i \<in> set ids \<and> i_is_active i) (itemsTable d)"

text \<open>
  The handler. The first insert writes the request row, whose estimated total is
  checked against its column; the second writes the line items. There is no
  transaction around the two inserts: the store after a failure of the second one
  is the store the first one left.
\<close>

definition createRequest ::
  "timestamp \<Rightarrow> create_request_input \<Rightarrow> db \<Rightarrow> (error + request) \<times> db" where
  "createRequest now input d =
     (if length (select_active_user (cr_staff_id input) d) = 0
      then (Inl (Error Forbidden ''Staff user not found or inactive''), d)
      else
        (let itemIds = map li_item_id (cr_items input);
             found = select_active_items itemIds d
         in if length found \<noteq> length itemIds
            then (Inl (Error NotFound ''One or more items not found or inactive''), d)
            else
              (let m = itemPriceMap found;
                   estimate = truthy_amount (totalEstimatedCost m (cr_items input))
               in if \<not> numeric_column estimate
                  then (Inl (Error StorageError ''numeric field overflow''), d)
                  else
                    (let request = new_request now input estimate (requests_id_seq d);
                         d1 = d\<lparr> requestsTable := requestsTable d @ [request],
                                 requests_id_seq := requests_id_seq d + 1 \<rparr>
                     in case insert_request_items now m (r_id request) (cr_items input) d1 of
                          Inl e \<Rightarrow> (Inl e, d1)
                        | Inr d2 \<Rightarrow> (Inr request, d2)))))"

section \<open>Requests of one staff member (handlers/get_staff_requests.ts)\<close>

record item_with_category = item +
  i_category :: category

record request_item_with_item = request_item +
  ri_item :: item_with_category

record request_with_details = request +
  r_staff :: user
  r_manager :: "user option"
  r_admin :: "user option"
  r_items :: "request_item_with_item list"

text \<open>
  \<^verbatim>\<open>ORDER BY key DESC\<close>. The query does not say in which order rows with equal
  keys come; that is the storage's choice, and it is a parameter here: \<open>tie\<close> ranks
  the rows, and rows with equal keys come in ascending rank. Every function is
  allowed as \<open>tie\<close>, so what is proved for all of them holds for every order the
  storage may deliver.
\<close>

definition orderBy_desc :: "('a \<Rightarrow> int) \<Rightarrow> ('a \<Rightarrow> int) \<Rightarrow> 'a list \<Rightarrow> 'a list" where
  "orderBy_desc tie key rows = sort_key (\<lambda>x. (- key x, tie x)) rows"

text \<open>The place of a row in a list, counted from 0 (the length of the list for a row not in it).\<close>

definition position :: "'a list \<Rightarrow> 'a \<Rightarrow> int" where
  "position ys x = int (length (takeWhile (\<lambda>y. y \<noteq> x) ys))"

text \<open>\<^verbatim>\<open>ids.filter(Boolean)\<close>: drops \<^verbatim>\<open>null\<close> and 0.\<close>

definition truthy_ids :: "int option list \<Rightarrow> int list" where
  "truthy_ids vs = concat (map (\<lambda>v. case v of None \<Rightarrow> [] | Some n \<Rightarrow> if n = 0 then [] else [n]) vs)"

text \<open>The two inner joins from line items to items to categories, restricted to some requests.\<close>

definition requestItemsResults :: "int list \<Rightarrow> db \<Rightarrow> (request_item \<times> item \<times> category) list" where
  "requestItemsResults requestIds d =
     concat (map (\<lambda>ri.
       concat (map (\<lambda>i.
         concat (map (\<lambda>c.
           if ri_item_id ri = i_id i \<and> i_category_id i = c_id c
              \<and> ri_request_id ri \<in> set requestIds
           then [(ri, i, c)] else [])
         (categoriesTable d)))
       (itemsTable d)))
     (requestItemsTable d))"

definition hydrate_item :: "request_item \<times> item \<times> category \<Rightarrow> request_item_with_item" where
  "hydrate_item row =
     (case row of (ri, i, c) \<Rightarrow>
        request_item.extend ri
          (request_item_with_item.fields (item.extend i (item_with_category.fields c))))"

text \<open>\<^verbatim>\<open>id ? rows.find(u => u.id === id) || null : null\<close>.\<close>

definition find_assigned :: "int option \<Rightarrow> user list \<Rightarrow> user option" where
  "find_assigned v rows =
     (case v of None \<Rightarrow> None
      | Some n \<Rightarrow> if n = 0 then None else find (\<lambda>u. u_id u = n) rows)"

text \<open>The body of \<^verbatim>\<open>requests.map(request => ...)\<close>: one request with its details.\<close>

definition hydrate_request ::
  "user \<Rightarrow> user list \<Rightarrow> user list \<Rightarrow> (request_item \<times> item \<times> category) list
     \<Rightarrow> request \<Rightarrow> request_with_details" where
  "hydrate_request staff0 managers admins joined request =
     request.extend request
       (request_with_details.fields staff0
          (find_assigned (r_manager_id request) managers)
          (find_assigned (r_admin_id request) admins)
          (map hydrate_item
             (filter (\<lambda>(ri, i, c). ri_request_id ri = r_id request) joined)))"

text \<open>
  The handler. The first query compares the given id with the \<^verbatim>\<open>serial\<close> id
  column, and the procedure's input schema is \<^verbatim>\<open>z.number()\<close>: an id outside the
  32-bit range makes that query fail before any row is looked at.
\<close>

definition getStaffRequests ::
  "(request \<Rightarrow> int) \<Rightarrow> int \<Rightarrow> db \<Rightarrow> error + request_with_details list" where
  "getStaffRequests tie staffId d =
     (if \<not> integer_column staffId then Inl (Error StorageError ''integer out of range'')
      else case select_users_by_id staffId d of
        [] \<Rightarrow> Inl (Error NotFound
                (''Staff member with id '' @ number_str staffId @ '' not found''))
      | staff0 # _ \<Rightarrow>
          (let requests = orderBy_desc tie r_created_at
                            (filter (\<lambda>r. r_staff_id r = staffId) (requestsTable d))
           in if requests = [] then Inr []
              else
                (let managerIds = truthy_ids (map r_manager_id requests);
                     adminIds = truthy_ids (map r_admin_id requests);
                     userIds = remdups (managerIds @ adminIds);
                     users = (if userIds \<noteq> []
                              then filter (\<lambda>u. u_id u \<in> set userIds) (usersTable d) else []);
                     managers = filter (\<lambda>u. u_id u \<in> set managerIds) users;
                     admins = filter (\<lambda>u. u_id u \<in> set adminIds) users;
                     joined = requestItemsResults (map r_id requests) d
                 in Inr (map (hydrate_request staff0 managers admins joined) requests))))"

section \<open>Top categories of the report (handlers/get_reports.ts)\<close>

record top_category =
  categoryName :: string
  requestCount :: int
  totalAmount :: money

text \<open>
  The three inner joins of the query: one row for each line item of each request
  whose item and category resolve.
\<close>

definition category_join :: "db \<Rightarrow> (request \<times> request_item \<times> item \<times> category) list" where
  "category_join d =
     concat (map (\<lambda>r.
       concat (map (\<lambda>ri.
         concat (map (\<lambda>i.
           concat (map (\<lambda>c.
             if r_id r = ri_request_id ri \<and> ri_item_id ri = i_id i \<and> i_category_id i = c_id c
             then [(r, ri, i, c)] else [])
           (categoriesTable d)))
         (itemsTable d)))
       (requestItemsTable d)))
     (requestsTable d))"

definition group_key :: "request \<times> request_item \<times> item \<times> category \<Rightarrow> int \<times> string" where
  "group_key row = (case row of (r, ri, i, c) \<Rightarrow> (c_id c, c_name c))"

text \<open>\<^verbatim>\<open>count(distinct requests.id)\<close> over the rows of a group.\<close>

definition count_distinct_requests :: "(request \<times> request_item \<times> item \<times> category) list \<Rightarrow> int" where
  "count_distinct_requests g = int (length (remdups (map (\<lambda>(r, ri, i, c). r_id r) g)))"

text \<open>
  \<^verbatim>\<open>coalesce(sum(requests.actual_cost), 0)\<close> over the rows of a group: a row with a
  \<^verbatim>\<open>null\<close> cost adds nothing.
\<close>

definition sum_actual_cost :: "(request \<times> request_item \<times> item \<times> category) list \<Rightarrow> money" where
  "sum_actual_cost g =
     sum_list (map (\<lambda>(r, ri, i, c). case r_actual_cost r of None \<Rightarrow> 0 | Some a \<Rightarrow> a) g)"

text \<open>\<^verbatim>\<open>GROUP BY categories.id, categories.name ORDER BY count DESC LIMIT 5\<close>.\<close>

definition topCategories :: "(top_category \<Rightarrow> int) \<Rightarrow> db \<Rightarrow> top_category list" where
  "topCategories tie d =
     (let rows = category_join d;
          keys = remdups (map group_key rows);
          result = map (\<lambda>k.
                     (let g = filter (\<lambda>row. group_key row = k) rows
                      in \<lparr> categoryName = snd k,
                           requestCount = count_distinct_requests g,
                           totalAmount = sum_actual_cost g \<rparr>)) keys
      in take 5 (orderBy_desc tie requestCount result))"

text \<open>Unit cost times quantity of a stored line item; a line without a cost counts 0.\<close>

definition line_cost :: "request_item \<Rightarrow> money" where
  "line_cost ri = (case ri_estimated_unit_cost ri of None \<Rightarrow> 0 | Some p \<Rightarrow> p) * ri_quantity ri"

section \<open>Sequences of operations\<close>

text \<open>
  The operations that write to the store. The three lifecycle handlers are the only
  ones that write to the requests and line-item tables; the handlers that create and
  update users, categories and items write to their own table only, and are taken
  together as one operation that replaces the content of those three tables.
\<close>

datatype operation =
    CreateRequest timestamp create_request_input
  | ManagerActionOnRequest timestamp manager_action_input
  | AdminProcessRequest timestamp admin_process_input
  | DirectoryUpdate "user list" "category list" "item list"

fun step :: "operation \<Rightarrow> db \<Rightarrow> db" where
  "step (CreateRequest now input) d = snd (createRequest now input d)"
| "step (ManagerActionOnRequest now input) d = snd (managerActionOnRequest now input d)"
| "step (AdminProcessRequest now input) d = snd (adminProcessRequest now input d)"
| "step (DirectoryUpdate us cs its) d =
     d\<lparr> usersTable := us, categoriesTable := cs, itemsTable := its \<rparr>"

definition run :: "operation list \<Rightarrow> db \<Rightarrow> db" where
  "run ops d = fold step ops d"

text \<open>
  A step of a run is a manager decision on request \<open>x\<close> when it is a call of the
  manager handler for that request and the call succeeds; \<open>decisions\<close> counts such
  steps along a run.
\<close>

definition decision_on :: "int \<Rightarrow> operation \<Rightarrow> db \<Rightarrow> bool" where
  "decision_on x op d =
     (case op of
        ManagerActionOnRequest now input \<Rightarrow>
          ma_request_id input = x
          \<and> (case fst (managerActionOnRequest now input d) of Inl e \<Rightarrow> False | Inr r \<Rightarrow> True)
      | _ \<Rightarrow> False)"

fun decisions :: "int \<Rightarrow> operation list \<Rightarrow> db \<Rightarrow> nat" where
  "decisions x [] d = 0"
| "decisions x (op # ops) d =
     (if decision_on x op d then 1 else 0) + decisions x ops (step op d)"

text \<open>
  A request on which a manager has decided: it exists, its status is not pending,
  and its manager fields hold the given values.
\<close>

definition decided :: "int \<Rightarrow> int option \<Rightarrow> string option \<Rightarrow> db \<Rightarrow> bool" where
  "decided x m n d \<longleftrightarrow>
     (case find_request x d of
        None \<Rightarrow> False
      | Some r \<Rightarrow> r_status r \<noteq> pending \<and> r_manager_id r = m \<and> r_manager_notes r = n)"

section \<open>A small store used to run the handlers\<close>

definition example_user :: "int \<Rightarrow> string \<Rightarrow> user_role \<Rightarrow> bool \<Rightarrow> user" where
  "example_user n email role active =
     \<lparr> u_id = n, u_email = email, u_name = ''User'', u_role = role, u_is_active = active,
       u_created_at = 0, u_updated_at = 0 \<rparr>"

definition example_category :: "int \<Rightarrow> string \<Rightarrow> category" where
  "example_category n name =
     \<lparr> c_id = n, c_name = name, c_description = None, c_is_active = True,
       c_created_at = 0, c_updated_at = 0 \<rparr>"

definition example_item :: "int \<Rightarrow> string \<Rightarrow> int \<Rightarrow> money option \<Rightarrow> item" where
  "example_item n name cat price =
     \<lparr> i_id = n, i_name = name, i_description = None, i_category_id = cat, i_unit = ''piece'',
       i_estimated_price = price, i_is_active = True, i_created_at = 0, i_updated_at = 0 \<rparr>"

definition example_request :: "int \<Rightarrow> request_status \<Rightarrow> timestamp \<Rightarrow> money option \<Rightarrow> request" where
  "example_request n s t cost =
     \<lparr> r_id = n, r_staff_id = 3, r_title = ''Supplies'', r_justification = None, r_status = s,
       r_manager_id = (if s = pending then None else Some 2), r_manager_notes = None,
       r_admin_id = None, r_admin_notes = None,
       r_total_estimated_cost = None, r_actual_cost = cost, r_purchase_date = None,
       r_received_date = None, r_created_at = t, r_updated_at = t \<rparr>"

definition example_line :: "int \<Rightarrow> int \<Rightarrow> int \<Rightarrow> int \<Rightarrow> request_item" where
  "example_line n req it qty =
     \<lparr> ri_id = n, ri_request_id = req, ri_item_id = it, ri_quantity = qty,
       ri_estimated_unit_cost = None, ri_actual_unit_cost = None, ri_notes = None,
       ri_created_at = 0 \<rparr>"

text \<open>
  Five users (4 is a deactivated super admin, 5 a staff member without requests),
  two categories, six items (3 has no price, 4 is priced 0.00), three requests of
  staff member 3; request 3 was received at an actual cost of 100.00 and has two
  line items, both in Electronics.
\<close>

definition example_db :: db where
  "example_db =
     \<lparr> usersTable =
         [example_user 1 ''admin@example.com'' super_admin True,
          example_user 2 ''manager@example.com'' manager True,
          example_user 3 ''staff@example.com'' staff True,
          example_user 4 ''former@example.com'' super_admin False,
          example_user 5 ''newcomer@example.com'' staff True],
       categoriesTable =
         [example_category 1 ''Electronics'', example_category 2 ''Office Supplies''],
       itemsTable =
         [example_item 1 ''Notebook'' 2 (Some 599), example_item 2 ''Pens'' 2 (Some 1250),
          example_item 3 ''Stamp'' 2 None, example_item 4 ''Sample'' 2 (Some 0),
          example_item 5 ''Laptop'' 1 (Some 100000), example_item 6 ''Monitor'' 1 (Some 30000)],
       requestsTable =
         [example_request 1 pending 100 None,
          example_request 2 manager_approved 300 None,
          example_request 3 received 200 (Some 10000)],
       requestItemsTable = [example_line 1 3 5 1, example_line 2 3 6 2],
       requests_id_seq = 4, request_items_id_seq = 3 \<rparr>"

definition example_order :: "(int \<times> int) list \<Rightarrow> create_request_input" where
  "example_order lines =
     \<lparr> cr_staff_id = 3, cr_title = ''Monthly Office Supplies'', cr_justification = None,
       cr_items = map (\<lambda>(it, qty). \<lparr> li_item_id = it, li_quantity = qty, li_notes = None \<rparr>) lines \<rparr>"

definition example_admin_input :: "int \<Rightarrow> int \<Rightarrow> admin_action \<Rightarrow> admin_process_input" where
  "example_admin_input req admin a =
     \<lparr> ap_request_id = req, ap_admin_id = admin, ap_action = a, ap_notes = None,
       ap_actual_cost = Some (Some 12000), ap_purchase_date = None,
       ap_received_date = Some None \<rparr>"

definition example_manager_input :: "int \<Rightarrow> manager_action \<Rightarrow> manager_action_input" where
  "example_manager_input req a =
     \<lparr> ma_request_id = req, ma_manager_id = 2, ma_action = a, ma_notes = Some ''ok'' \<rparr>"

section \<open>Admin processing: transitions, authorisation, frame\<close>





lemma r_id_admin_updateData: "r_id (admin_updateData now input r) = r_id r"
  by (simp add: admin_updateData_def)

lemma filter_id_map_update:
  assumes "\<And>r. r_id (f r) = r_id r"
  shows "filter (\<lambda>r. r_id r = x) (map (\<lambda>r. if r_id r = x then f r else r) rs)
           = map f (filter (\<lambda>r. r_id r = x) rs)"
  by (induction rs) (simp_all add: assms)

lemma filter_other_map_update:
  assumes "\<And>r. r_id (f r) = r_id r"
  shows "filter (\<lambda>r. r_id r \<noteq> x) (map (\<lambda>r. if r_id r = x then f r else r) rs)
           = filter (\<lambda>r. r_id r \<noteq> x) rs"
  by (induction rs) (simp_all add: assms)

lemma select_after_admin_update:
  "select_requests_by_id x (update_requests_by_id x (admin_updateData now input) d)
     = map (admin_updateData now input) (select_requests_by_id x d)"
  by (simp add: select_requests_by_id_def update_requests_by_id_def
        filter_id_map_update r_id_admin_updateData)



lemma adminProcessRequest_success:
  assumes "adminProcessRequest now input d = (Inr updated, d')"
  shows "\<exists>old. find_request (ap_request_id input) d = Some old
           \<and> updated = admin_updateData now input old
           \<and> numeric_column (supplied_value (ap_actual_cost input))
           \<and> d' = update_requests_by_id (ap_request_id input) (admin_updateData now input) d"
  using assms
  by (auto simp: adminProcessRequest_def find_request_def select_after_admin_update Let_def
        split: list.splits if_splits)

lemmas example_simps =
  example_db_def example_user_def example_request_def example_category_def example_item_def
  example_line_def example_order_def example_admin_input_def example_manager_input_def
  find_user_def find_request_def select_users_by_id_def select_requests_by_id_def
  update_requests_by_id_def




text \<open>
  Claim C7, at the input where the code departs from it: user 4 is a super admin
  that has been deactivated, and the handler lets that user move request 2 from
  manager_approved to admin_processing. The handler looks the acting user up by id
  and tests the role; it never reads \<open>u_is_active\<close>.
\<close>

theorem adminProcessRequest_inactive_admin:
  "find_user 4 example_db = Some (example_user 4 ''former@example.com'' super_admin False)
   \<and> \<not> u_is_active (example_user 4 ''former@example.com'' super_admin False)
   \<and> adminProcessRequest 1000 (example_admin_input 2 4 start_processing) example_db
       = (Inr (admin_updateData 1000 (example_admin_input 2 4 start_processing)
                 (example_request 2 manager_approved 300 None)),
          update_requests_by_id 2
            (admin_updateData 1000 (example_admin_input 2 4 start_processing)) example_db)
   \<and> r_status (admin_updateData 1000 (example_admin_input 2 4 start_processing)
                 (example_request 2 manager_approved 300 None)) = admin_processing
   \<and> r_admin_id (admin_updateData 1000 (example_admin_input 2 4 start_processing)
                 (example_request 2 manager_approved 300 None)) = Some 4"
  by (simp add: adminProcessRequest_def allowedActions_def numeric_column_def supplied_value_def
        example_simps r_id_admin_updateData)
     (simp add: admin_updateData_def)

text \<open>
  The refusals the handler does implement: an acting id of the range of the id
  column that resolves to no user, or an acting id that resolves to a user whose
  role is not super admin, is refused and the store is unchanged.
\<close>

lemma adminProcessRequest_forbidden:
  assumes "(integer_column (ap_admin_id input) \<and> find_user (ap_admin_id input) d = None)
           \<or> (\<exists>u. find_user (ap_admin_id input) d = Some u \<and> u_role u \<noteq> super_admin)"
  shows "\<exists>msg. adminProcessRequest now input d = (Inl (Error Forbidden msg), d)"
  using assms
  by (auto simp: adminProcessRequest_def find_user_def split: list.splits)

text \<open>
  Claim C10. A successful call overwrites actual_cost, purchase_date and
  received_date (and admin_notes) with what the payload supplies, whatever the
  action; a field the payload leaves out keeps its stored value. Id, staff, title,
  justification, the manager fields, the estimated total and created_at of the
  request are as before, and so are every other request and every other table.
\<close>

theorem adminProcessRequest_frame:
  assumes "adminProcessRequest now input d = (Inr updated, d')"
  shows "\<exists>old. find_request (ap_request_id input) d = Some old
     \<and> find_request (ap_request_id input) d' = Some updated
     \<and> r_actual_cost updated
         = (case ap_actual_cost input of None \<Rightarrow> r_actual_cost old | Some v \<Rightarrow> v)
     \<and> r_purchase_date updated
         = (case ap_purchase_date input of None \<Rightarrow> r_purchase_date old | Some v \<Rightarrow> v)
     \<and> r_received_date updated
         = (case ap_received_date input of None \<Rightarrow> r_received_date old | Some v \<Rightarrow> v)
     \<and> r_admin_notes updated
         = (case ap_notes input of None \<Rightarrow> r_admin_notes old | Some v \<Rightarrow> v)
     \<and> r_id updated = r_id old \<and> r_staff_id updated = r_staff_id old
     \<and> r_title updated = r_title old \<and> r_justification updated = r_justification old
     \<and> r_manager_id updated = r_manager_id old
     \<and> r_manager_notes updated = r_manager_notes old
     \<and> r_total_estimated_cost updated = r_total_estimated_cost old
     \<and> r_created_at updated = r_created_at old
     \<and> filter (\<lambda>r. r_id r \<noteq> ap_request_id input) (requestsTable d')
         = filter (\<lambda>r. r_id r \<noteq> ap_request_id input) (requestsTable d)
     \<and> usersTable d' = usersTable d \<and> categoriesTable d' = categoriesTable d
     \<and> itemsTable d' = itemsTable d \<and> requestItemsTable d' = requestItemsTable d
     \<and> requests_id_seq d' = requests_id_seq d
     \<and> request_items_id_seq d' = request_items_id_seq d"
proof -
  from adminProcessRequest_success [OF assms] obtain old where
    old: "find_request (ap_request_id input) d = Some old"
    and upd: "updated = admin_updateData now input old"
    and d': "d' = update_requests_by_id (ap_request_id input) (admin_updateData now input) d"
    by blast
  have stored: "find_request (ap_request_id input) d' = Some updated"
    using old by (auto simp: d' upd find_request_def select_after_admin_update split: list.splits)
  have others: "filter (\<lambda>r. r_id r \<noteq> ap_request_id input) (requestsTable d')
         = filter (\<lambda>r. r_id r \<noteq> ap_request_id input) (requestsTable d)"
    by (simp add: d' update_requests_by_id_def filter_other_map_update r_id_admin_updateData)
  have tables: "usersTable d' = usersTable d \<and> categoriesTable d' = categoriesTable d
     \<and> itemsTable d' = itemsTable d \<and> requestItemsTable d' = requestItemsTable d
     \<and> requests_id_seq d' = requests_id_seq d
     \<and> request_items_id_seq d' = request_items_id_seq d"
    by (simp add: d' update_requests_by_id_def)
  have fields: "r_actual_cost updated
         = (case ap_actual_cost input of None \<Rightarrow> r_actual_cost old | Some v \<Rightarrow> v)
     \<and> r_purchase_date updated
         = (case ap_purchase_date input of None \<Rightarrow> r_purchase_date old | Some v \<Rightarrow> v)
     \<and> r_received_date updated
         = (case ap_received_date input of None \<Rightarrow> r_received_date old | Some v \<Rightarrow> v)
     \<and> r_admin_notes updated
         = (case ap_notes input of None \<Rightarrow> r_admin_notes old | Some v \<Rightarrow> v)
     \<and> r_id updated = r_id old \<and> r_staff_id updated = r_staff_id old
     \<and> r_title updated = r_title old \<and> r_justification updated = r_justification old
     \<and> r_manager_id updated = r_manager_id old
     \<and> r_manager_notes updated = r_manager_notes old
     \<and> r_total_estimated_cost updated = r_total_estimated_cost old
     \<and> r_created_at updated = r_created_at old"
    by (simp add: upd admin_updateData_def)
  from old stored others tables fields show ?thesis by blast
qed

theorem adminProcessRequest_frame_witness:
  "adminProcessRequest 1000 (example_admin_input 2 1 start_processing) example_db
     = (Inr (admin_updateData 1000 (example_admin_input 2 1 start_processing)
               (example_request 2 manager_approved 300 None)),
        update_requests_by_id 2
          (admin_updateData 1000 (example_admin_input 2 1 start_processing)) example_db)
   \<and> find_request 2 example_db = Some (example_request 2 manager_approved 300 None)
   \<and> r_actual_cost (admin_updateData 1000 (example_admin_input 2 1 start_processing)
               (example_request 2 manager_approved 300 None)) = Some 12000
   \<and> r_received_date (admin_updateData 1000 (example_admin_input 2 1 start_processing)
               (example_request 2 manager_approved 300 None)) = None
   \<and> r_manager_id (admin_updateData 1000 (example_admin_input 2 1 start_processing)
               (example_request 2 manager_approved 300 None)) = Some 2"
proof -
  have run: "adminProcessRequest 1000 (example_admin_input 2 1 start_processing) example_db
     = (Inr (admin_updateData 1000 (example_admin_input 2 1 start_processing)
               (example_request 2 manager_approved 300 None)),
        update_requests_by_id 2
          (admin_updateData 1000 (example_admin_input 2 1 start_processing)) example_db)"
    by (simp add: adminProcessRequest_def allowedActions_def numeric_column_def
          supplied_value_def example_simps r_id_admin_updateData)
  have old: "find_request 2 example_db = Some (example_request 2 manager_approved 300 None)"
    by (simp add: example_simps)
  have payload: "ap_request_id (example_admin_input 2 1 start_processing) = 2"
    "ap_actual_cost (example_admin_input 2 1 start_processing) = Some (Some 12000)"
    "ap_received_date (example_admin_input 2 1 start_processing) = Some None"
    "r_manager_id (example_request 2 manager_approved 300 None) = Some 2"
    by (simp_all add: example_admin_input_def example_request_def)
  from adminProcessRequest_frame [OF run] run old payload show ?thesis
    by simp
qed


section \<open>The manager gate\<close>

lemma r_id_manager_updateData: "r_id (manager_updateData now input r) = r_id r"
  by (simp add: manager_updateData_def)

lemma select_after_manager_update:
  "select_requests_by_id x (update_requests_by_id x (manager_updateData now input) d)
     = map (manager_updateData now input) (select_requests_by_id x d)"
  by (simp add: select_requests_by_id_def update_requests_by_id_def
        filter_id_map_update r_id_manager_updateData)

lemma filter_id_map_update_other:
  assumes "\<And>r. r_id (f r) = r_id r" and "x \<noteq> y"
  shows "filter (\<lambda>r. r_id r = y) (map (\<lambda>r. if r_id r = x then f r else r) rs)
           = filter (\<lambda>r. r_id r = y) rs"
  using assms(2) by (induction rs) (simp_all add: assms(1))

lemma find_request_update_other:
  assumes "\<And>r. r_id (f r) = r_id r" and "x \<noteq> y"
  shows "find_request y (update_requests_by_id x f d) = find_request y d"
  by (simp add: find_request_def select_requests_by_id_def update_requests_by_id_def
        filter_id_map_update_other [OF assms])

lemma find_request_append:
  assumes "find_request x d = Some r" and "requestsTable d' = requestsTable d @ extra"
  shows "find_request x d' = Some r"
  using assms
  by (auto simp: find_request_def select_requests_by_id_def split: list.splits)

lemma createRequest_appends:
  "\<exists>extra. requestsTable (snd (createRequest now input d)) = requestsTable d @ extra"
  by (auto simp: createRequest_def insert_request_items_def Let_def split: sum.splits if_splits)

lemma managerActionOnRequest_success:
  assumes "managerActionOnRequest now input d = (Inr updated, d')"
  shows "\<exists>old. find_request (ma_request_id input) d = Some old \<and> r_status old = pending
           \<and> updated = manager_updateData now input old
           \<and> d' = update_requests_by_id (ma_request_id input) (manager_updateData now input) d"
  using assms
  by (auto simp: managerActionOnRequest_def find_request_def select_after_manager_update Let_def
        split: list.splits if_splits)

lemma managerActionOnRequest_not_pending:
  assumes "find_request (ma_request_id input) d = Some request" and "r_status request \<noteq> pending"
  shows "managerActionOnRequest now input d =
           (Inl (Error InvalidState
                  (''Request '' @ number_str (ma_request_id input)
                     @ '' is not in pending status. Current status: ''
                     @ request_status_str (r_status request))), d)"
  using assms
  by (auto simp: managerActionOnRequest_def find_request_def split: list.splits)

lemma managerActionOnRequest_store:
  "snd (managerActionOnRequest now input d) = d
   \<or> (\<exists>old. find_request (ma_request_id input) d = Some old \<and> r_status old = pending
         \<and> snd (managerActionOnRequest now input d)
             = update_requests_by_id (ma_request_id input) (manager_updateData now input) d)"
  by (auto simp: managerActionOnRequest_def find_request_def Let_def
        split: list.splits if_splits)

lemma adminProcessRequest_store:
  "snd (adminProcessRequest now input d) = d
   \<or> snd (adminProcessRequest now input d)
        = update_requests_by_id (ap_request_id input) (admin_updateData now input) d"
  by (auto simp: adminProcessRequest_def Let_def split: list.splits if_splits)

lemma newStatus_not_pending: "newStatus a \<noteq> pending"
  by (cases a) simp_all

lemma decided_admin_update:
  assumes "decided x m n d"
  shows "decided x m n (update_requests_by_id y (admin_updateData now input) d)"
proof (cases "y = x")
  case True
  from assms obtain r where r: "find_request x d = Some r"
    and ok: "r_status r \<noteq> pending" "r_manager_id r = m" "r_manager_notes r = n"
    by (auto simp: decided_def split: option.splits)
  from r have "find_request x (update_requests_by_id x (admin_updateData now input) d)
      = Some (admin_updateData now input r)"
    by (auto simp: find_request_def select_after_admin_update split: list.splits)
  with ok True show ?thesis
    by (simp add: decided_def admin_updateData_def newStatus_not_pending)
next
  case False
  then show ?thesis
    using assms by (simp add: decided_def find_request_update_other r_id_admin_updateData)
qed

lemma decided_step:
  assumes "decided x m n d"
  shows "decided x m n (step op d)"
proof (cases op)
  case (CreateRequest now input)
  obtain extra where "requestsTable (snd (createRequest now input d)) = requestsTable d @ extra"
    using createRequest_appends by blast
  with assms CreateRequest show ?thesis
    by (auto simp: decided_def split: option.splits dest: find_request_append)
next
  case (ManagerActionOnRequest now input)
  show ?thesis
  proof (cases "ma_request_id input = x")
    case True
    with assms have "snd (managerActionOnRequest now input d) = d"
      using managerActionOnRequest_store [of now input d]
      by (auto simp: decided_def split: option.splits)
    with assms ManagerActionOnRequest show ?thesis by simp
  next
    case False
    with assms ManagerActionOnRequest managerActionOnRequest_store [of now input d]
    show ?thesis
      by (auto simp: decided_def find_request_update_other r_id_manager_updateData)
  qed
next
  case (AdminProcessRequest now input)
  with assms adminProcessRequest_store [of now input d] decided_admin_update [OF assms]
  show ?thesis by auto
next
  case (DirectoryUpdate us cs its)
  with assms show ?thesis
    by (simp add: decided_def find_request_def select_requests_by_id_def)
qed

lemma decided_run: "decided x m n d \<Longrightarrow> decided x m n (run ops d)"
  unfolding run_def
  by (induction ops arbitrary: d) (simp_all add: decided_step)

lemma adminProcessRequest_manager_fields:
  "map r_manager_id (requestsTable (snd (adminProcessRequest now input d)))
     = map r_manager_id (requestsTable d)
   \<and> map r_manager_notes (requestsTable (snd (adminProcessRequest now input d)))
     = map r_manager_notes (requestsTable d)"
  using adminProcessRequest_store [of now input d]
  by (auto simp: update_requests_by_id_def admin_updateData_def)


lemma managerActionOnRequest_refused:
  assumes "fst (managerActionOnRequest now input d) = Inl e"
  shows "snd (managerActionOnRequest now input d) = d"
  using assms
  by (auto simp: managerActionOnRequest_def Let_def select_after_manager_update
        split: list.splits if_splits)

lemma adminProcessRequest_store_checked:
  "snd (adminProcessRequest now input d) = d
   \<or> (snd (adminProcessRequest now input d)
         = update_requests_by_id (ap_request_id input) (admin_updateData now input) d
       \<and> (\<exists>request. find_request (ap_request_id input) d = Some request
             \<and> ap_action input \<in> set (allowedActions (r_status request))))"
  by (auto simp: adminProcessRequest_def find_request_def Let_def split: list.splits if_splits)

lemma createRequest_appends_pending:
  "\<exists>extra. requestsTable (snd (createRequest now input d)) = requestsTable d @ extra
     \<and> list_all (\<lambda>r. r_status r = pending \<and> r_manager_id r = None \<and> r_manager_notes r = None)
          extra"
  by (auto simp: createRequest_def insert_request_items_def new_request_def Let_def
        split: sum.splits if_splits)

lemma step_keeps_manager_fields:
  assumes r: "find_request x d = Some r" and no: "\<not> decision_on x op d"
  shows "\<exists>r'. find_request x (step op d) = Some r'
           \<and> r_manager_id r' = r_manager_id r \<and> r_manager_notes r' = r_manager_notes r
           \<and> (r_status r' = pending \<longleftrightarrow> r_status r = pending)"
proof (cases op)
  case (CreateRequest now input)
  obtain extra where "requestsTable (snd (createRequest now input d)) = requestsTable d @ extra"
    using createRequest_appends by blast
  from find_request_append [OF r this] CreateRequest show ?thesis
    by simp
next
  case (ManagerActionOnRequest now input)
  show ?thesis
  proof (cases "ma_request_id input = x")
    case True
    with no ManagerActionOnRequest obtain e where "fst (managerActionOnRequest now input d) = Inl e"
      by (auto simp: decision_on_def split: sum.splits)
    then have "snd (managerActionOnRequest now input d) = d"
      by (rule managerActionOnRequest_refused)
    with r ManagerActionOnRequest show ?thesis
      by simp
  next
    case False
    with r ManagerActionOnRequest managerActionOnRequest_store [of now input d]
    show ?thesis
      by (auto simp: find_request_update_other r_id_manager_updateData)
  qed
next
  case (AdminProcessRequest now input)
  show ?thesis
  proof (cases "snd (adminProcessRequest now input d) = d")
    case True
    with r AdminProcessRequest show ?thesis
      by simp
  next
    case False
    with adminProcessRequest_store_checked [of now input d] obtain request where
      upd: "snd (adminProcessRequest now input d)
              = update_requests_by_id (ap_request_id input) (admin_updateData now input) d"
      and req: "find_request (ap_request_id input) d = Some request"
      and ok: "ap_action input \<in> set (allowedActions (r_status request))"
      by blast
    show ?thesis
    proof (cases "ap_request_id input = x")
      case True
      with r req have same: "request = r"
        by simp
      with ok have np: "r_status r \<noteq> pending"
        by (auto simp: allowedActions_def)
      from r True have "find_request x (update_requests_by_id (ap_request_id input)
          (admin_updateData now input) d) = Some (admin_updateData now input r)"
        by (auto simp: find_request_def select_after_admin_update split: list.splits)
      with upd np AdminProcessRequest show ?thesis
        by (simp add: admin_updateData_def newStatus_not_pending)
    next
      case False
      with r upd AdminProcessRequest show ?thesis
        by (simp add: find_request_update_other r_id_admin_updateData)
    qed
  qed
next
  case (DirectoryUpdate us cs its)
  with r show ?thesis
    by (simp add: find_request_def select_requests_by_id_def)
qed

lemma decision_leaves_decided:
  assumes "decision_on x op d"
  shows "\<exists>r. find_request x (step op d) = Some r \<and> r_status r \<noteq> pending"
proof -
  from assms obtain now input updated where op: "op = ManagerActionOnRequest now input"
    and x: "ma_request_id input = x"
    and ok: "fst (managerActionOnRequest now input d) = Inr updated"
    by (auto simp: decision_on_def split: operation.splits sum.splits)
  then have "managerActionOnRequest now input d
      = (Inr updated, snd (managerActionOnRequest now input d))"
    by (metis prod.collapse)
  from managerActionOnRequest_success [OF this] obtain old where
    old: "find_request (ma_request_id input) d = Some old"
    and d': "snd (managerActionOnRequest now input d)
        = update_requests_by_id (ma_request_id input) (manager_updateData now input) d"
    by blast
  from old have "find_request (ma_request_id input)
      (update_requests_by_id (ma_request_id input) (manager_updateData now input) d)
      = Some (manager_updateData now input old)"
    by (auto simp: find_request_def select_after_manager_update split: list.splits)
  with op x d' show ?thesis
    by (auto simp: manager_updateData_def)
qed

lemma decided_no_decision:
  assumes "find_request x d = Some r" and "r_status r \<noteq> pending"
  shows "\<not> decision_on x op d"
proof
  assume "decision_on x op d"
  then obtain now input updated where "op = ManagerActionOnRequest now input"
    and x: "ma_request_id input = x"
    and ok: "fst (managerActionOnRequest now input d) = Inr updated"
    by (auto simp: decision_on_def split: operation.splits sum.splits)
  moreover from assms x have "fst (managerActionOnRequest now input d)
      = Inl (Error InvalidState
               (''Request '' @ number_str (ma_request_id input)
                  @ '' is not in pending status. Current status: ''
                  @ request_status_str (r_status r)))"
    by (simp add: managerActionOnRequest_not_pending)
  ultimately show False
    by simp
qed

lemma decided_no_decisions:
  assumes "find_request x d = Some r" and "r_status r \<noteq> pending"
  shows "decisions x ops d = 0"
  using assms
proof (induction ops arbitrary: d r)
  case Nil
  then show ?case by simp
next
  case (Cons op ops)
  have no: "\<not> decision_on x op d"
    using Cons.prems by (rule decided_no_decision)
  from step_keeps_manager_fields [OF Cons.prems(1) no] Cons.prems(2)
  obtain r' where "find_request x (step op d) = Some r'" and "r_status r' \<noteq> pending"
    by auto
  then have "decisions x ops (step op d) = 0"
    by (rule Cons.IH)
  with no show ?case
    by simp
qed

lemma decisions_at_most_one: "decisions x ops d \<le> 1"
proof (induction ops arbitrary: d)
  case Nil
  then show ?case by simp
next
  case (Cons op ops)
  show ?case
  proof (cases "decision_on x op d")
    case True
    from decision_leaves_decided [OF True] obtain r where
      "find_request x (step op d) = Some r" and "r_status r \<noteq> pending"
      by blast
    then have "decisions x ops (step op d) = 0"
      by (rule decided_no_decisions)
    with True show ?thesis
      by simp
  next
    case False
    with Cons.IH [of "step op d"] show ?thesis
      by simp
  qed
qed

text \<open>
  Claim C2. A manager decision succeeds only on a request whose status is pending;
  on a request with any other status it fails with an invalid-state error, and a
  call that fails, for whatever reason, leaves the store unchanged. After a
  successful decision, whatever operations follow, the request exists, its status
  is not pending, and manager_id and manager_notes hold what that decision wrote.
  An admin-processing call leaves manager_id and manager_notes of every request as
  they were. A request is created pending with both fields null; a step that is not
  a successful manager decision on a request leaves its manager_id and
  manager_notes as they were and does not move it into or out of pending; and along
  any run from any store at most one step is a successful manager decision on a
  given request. So the two fields are written once, by that decision.
\<close>

theorem manager_gate:
  "(managerActionOnRequest now input d = (Inr updated, d') \<longrightarrow>
      (\<exists>old. find_request (ma_request_id input) d = Some old \<and> r_status old = pending)
      \<and> (\<forall>ops. \<exists>r. find_request (ma_request_id input) (run ops d') = Some r
               \<and> r_status r \<noteq> pending
               \<and> r_manager_id r = Some (ma_manager_id input)
               \<and> r_manager_notes r = or_null (ma_notes input)))
   \<and> (find_request (ma_request_id input) d = Some request \<and> r_status request \<noteq> pending \<longrightarrow>
        (\<exists>msg. managerActionOnRequest now input d = (Inl (Error InvalidState msg), d)))
   \<and> map r_manager_id (requestsTable (snd (adminProcessRequest now' ainput d)))
        = map r_manager_id (requestsTable d)
   \<and> map r_manager_notes (requestsTable (snd (adminProcessRequest now' ainput d)))
        = map r_manager_notes (requestsTable d)
   \<and> (fst (managerActionOnRequest now input d) = Inl e \<longrightarrow>
        snd (managerActionOnRequest now input d) = d)
   \<and> (find_request x d = Some r \<and> \<not> decision_on x op d \<longrightarrow>
        (\<exists>r'. find_request x (step op d) = Some r'
           \<and> r_manager_id r' = r_manager_id r \<and> r_manager_notes r' = r_manager_notes r
           \<and> (r_status r' = pending \<longleftrightarrow> r_status r = pending)))
   \<and> decisions x steps d \<le> 1
   \<and> (\<exists>extra. requestsTable (snd (createRequest now'' cinput d)) = requestsTable d @ extra
         \<and> list_all (\<lambda>r. r_status r = pending \<and> r_manager_id r = None
                          \<and> r_manager_notes r = None) extra)"
proof (intro conjI impI allI)
  assume ok: "managerActionOnRequest now input d = (Inr updated, d')"
  from managerActionOnRequest_success [OF ok] obtain old where
    old: "find_request (ma_request_id input) d = Some old" "r_status old = pending"
    and d': "d' = update_requests_by_id (ma_request_id input) (manager_updateData now input) d"
    by blast
  from old show "\<exists>old. find_request (ma_request_id input) d = Some old \<and> r_status old = pending"
    by blast
  from old(1) have "find_request (ma_request_id input) d' = Some (manager_updateData now input old)"
    by (auto simp: d' find_request_def select_after_manager_update split: list.splits)
  then have start: "decided (ma_request_id input) (Some (ma_manager_id input))
      (or_null (ma_notes input)) d'"
    by (simp add: decided_def manager_updateData_def)
  fix ops
  from decided_run [OF start, of ops]
  show "\<exists>r. find_request (ma_request_id input) (run ops d') = Some r
               \<and> r_status r \<noteq> pending
               \<and> r_manager_id r = Some (ma_manager_id input)
               \<and> r_manager_notes r = or_null (ma_notes input)"
    by (auto simp: decided_def split: option.splits)
next
  assume "find_request (ma_request_id input) d = Some request \<and> r_status request \<noteq> pending"
  then show "\<exists>msg. managerActionOnRequest now input d = (Inl (Error InvalidState msg), d)"
    by (auto simp: managerActionOnRequest_not_pending)
next
  show "map r_manager_id (requestsTable (snd (adminProcessRequest now' ainput d)))
        = map r_manager_id (requestsTable d)"
    by (simp add: adminProcessRequest_manager_fields)
next
  show "map r_manager_notes (requestsTable (snd (adminProcessRequest now' ainput d)))
        = map r_manager_notes (requestsTable d)"
    by (simp add: adminProcessRequest_manager_fields)
next
  assume "fst (managerActionOnRequest now input d) = Inl e"
  then show "snd (managerActionOnRequest now input d) = d"
    by (rule managerActionOnRequest_refused)
next
  assume "find_request x d = Some r \<and> \<not> decision_on x op d"
  then show "\<exists>r'. find_request x (step op d) = Some r'
           \<and> r_manager_id r' = r_manager_id r \<and> r_manager_notes r' = r_manager_notes r
           \<and> (r_status r' = pending \<longleftrightarrow> r_status r = pending)"
    by (auto intro: step_keeps_manager_fields)
next
  show "decisions x steps d \<le> 1"
    by (rule decisions_at_most_one)
next
  show "\<exists>extra. requestsTable (snd (createRequest now'' cinput d)) = requestsTable d @ extra
         \<and> list_all (\<lambda>r. r_status r = pending \<and> r_manager_id r = None
                          \<and> r_manager_notes r = None) extra"
    by (rule createRequest_appends_pending)
qed

theorem manager_gate_witness:
  "managerActionOnRequest 500 (example_manager_input 1 approve) example_db
     = (Inr (manager_updateData 500 (example_manager_input 1 approve)
               (example_request 1 pending 100 None)),
        update_requests_by_id 1 (manager_updateData 500 (example_manager_input 1 approve))
          example_db)
   \<and> (\<exists>r. find_request 1
             (run [AdminProcessRequest 600 (example_admin_input 1 1 start_processing),
                   ManagerActionOnRequest 700 (example_manager_input 1 reject),
                   CreateRequest 800 (example_order [(1, 10), (2, 2)])]
                (update_requests_by_id 1
                   (manager_updateData 500 (example_manager_input 1 approve)) example_db))
             = Some r
          \<and> r_status r \<noteq> pending \<and> r_manager_id r = Some 2 \<and> r_manager_notes r = Some ''ok'')
   \<and> find_request 2 example_db = Some (example_request 2 manager_approved 300 None)
   \<and> r_status (example_request 2 manager_approved 300 None) \<noteq> pending
   \<and> (\<exists>msg. managerActionOnRequest 500 (example_manager_input 2 approve) example_db
               = (Inl (Error InvalidState msg), example_db))
   \<and> find_request 1 example_db = Some (example_request 1 pending 100 None)
   \<and> (\<exists>e. fst (managerActionOnRequest 700
                  ((example_manager_input 1 approve)\<lparr> ma_manager_id := 3 \<rparr>) example_db) = Inl e)
   \<and> snd (managerActionOnRequest 700
             ((example_manager_input 1 approve)\<lparr> ma_manager_id := 3 \<rparr>) example_db) = example_db
   \<and> \<not> decision_on 1
         (ManagerActionOnRequest 700 ((example_manager_input 1 approve)\<lparr> ma_manager_id := 3 \<rparr>))
         example_db
   \<and> (\<exists>r'. find_request 1
              (step (ManagerActionOnRequest 700
                       ((example_manager_input 1 approve)\<lparr> ma_manager_id := 3 \<rparr>)) example_db)
              = Some r'
          \<and> r_manager_id r' = None \<and> r_manager_notes r' = None \<and> r_status r' = pending)"
proof -
  have run1: "managerActionOnRequest 500 (example_manager_input 1 approve) example_db
     = (Inr (manager_updateData 500 (example_manager_input 1 approve)
               (example_request 1 pending 100 None)),
        update_requests_by_id 1 (manager_updateData 500 (example_manager_input 1 approve))
          example_db)"
    by (simp add: managerActionOnRequest_def example_simps r_id_manager_updateData)
  have r1: "find_request 1 example_db = Some (example_request 1 pending 100 None)"
    and f1: "r_manager_id (example_request 1 pending 100 None) = None"
      "r_manager_notes (example_request 1 pending 100 None) = None"
      "r_status (example_request 1 pending 100 None) = pending"
    by (simp_all add: example_simps)
  have r2: "find_request 2 example_db = Some (example_request 2 manager_approved 300 None)"
    "r_status (example_request 2 manager_approved 300 None) \<noteq> pending"
    by (simp_all add: example_simps)
  have p: "ma_request_id (example_manager_input k a) = k"
    "ma_manager_id (example_manager_input k a) = 2"
    "or_null (ma_notes (example_manager_input k a)) = Some ''ok''" for k a
    by (simp_all add: example_manager_input_def or_null_def)
  obtain e where refused: "fst (managerActionOnRequest 700
      ((example_manager_input 1 approve)\<lparr> ma_manager_id := 3 \<rparr>) example_db) = Inl e"
    by (simp add: managerActionOnRequest_def example_simps)
  then have nodec: "\<not> decision_on 1
      (ManagerActionOnRequest 700 ((example_manager_input 1 approve)\<lparr> ma_manager_id := 3 \<rparr>))
      example_db"
    by (simp add: decision_on_def)
  from manager_gate [where now = 500 and input = "example_manager_input 1 approve"
                       and d = example_db
                       and updated = "manager_updateData 500 (example_manager_input 1 approve)
                                        (example_request 1 pending 100 None)"
                       and d' = "update_requests_by_id 1
                                   (manager_updateData 500 (example_manager_input 1 approve))
                                   example_db", THEN conjunct1]
       run1
  have "\<forall>ops. \<exists>r. find_request 1
             (run ops (update_requests_by_id 1
                   (manager_updateData 500 (example_manager_input 1 approve)) example_db))
             = Some r
          \<and> r_status r \<noteq> pending \<and> r_manager_id r = Some 2 \<and> r_manager_notes r = Some ''ok''"
    by (simp add: p)
  then have after: "\<exists>r. find_request 1
             (run [AdminProcessRequest 600 (example_admin_input 1 1 start_processing),
                   ManagerActionOnRequest 700 (example_manager_input 1 reject),
                   CreateRequest 800 (example_order [(1, 10), (2, 2)])]
                (update_requests_by_id 1
                   (manager_updateData 500 (example_manager_input 1 approve)) example_db))
             = Some r
          \<and> r_status r \<noteq> pending \<and> r_manager_id r = Some 2 \<and> r_manager_notes r = Some ''ok''"
    by (rule spec)
  from manager_gate [where now = 500 and input = "example_manager_input 2 approve"
                       and d = example_db
                       and request = "example_request 2 manager_approved 300 None",
                     THEN conjunct2, THEN conjunct1]
       r2
  have invalid: "\<exists>msg. managerActionOnRequest 500 (example_manager_input 2 approve) example_db
               = (Inl (Error InvalidState msg), example_db)"
    by (simp add: p)
  from manager_gate [where now = 700
                       and input = "(example_manager_input 1 approve)\<lparr> ma_manager_id := 3 \<rparr>"
                       and d = example_db and e = e,
                     THEN conjunct2, THEN conjunct2, THEN conjunct2, THEN conjunct2,
                     THEN conjunct1]
       refused
  have unchanged: "snd (managerActionOnRequest 700
      ((example_manager_input 1 approve)\<lparr> ma_manager_id := 3 \<rparr>) example_db) = example_db"
    by simp
  from manager_gate [where d = example_db and x = 1
                       and r = "example_request 1 pending 100 None"
                       and op = "ManagerActionOnRequest 700
                                   ((example_manager_input 1 approve)\<lparr> ma_manager_id := 3 \<rparr>)",
                     THEN conjunct2, THEN conjunct2, THEN conjunct2, THEN conjunct2,
                     THEN conjunct2, THEN conjunct1]
       r1 nodec
  have kept: "\<exists>r'. find_request 1
              (step (ManagerActionOnRequest 700
                       ((example_manager_input 1 approve)\<lparr> ma_manager_id := 3 \<rparr>)) example_db)
              = Some r'
          \<and> r_manager_id r' = None \<and> r_manager_notes r' = None \<and> r_status r' = pending"
    by (simp add: f1)
  from refused have ex: "\<exists>e. fst (managerActionOnRequest 700
                  ((example_manager_input 1 approve)\<lparr> ma_manager_id := 3 \<rparr>) example_db) = Inl e"
    by (rule exI)
  from run1 after r2 invalid r1 ex unchanged nodec kept show ?thesis
    by (intro conjI)
qed

section \<open>Requests of one staff member: outcomes and order\<close>

lemma orderBy_desc_sorted:
  "sorted_wrt (\<lambda>a b. key b \<le> key a) (orderBy_desc tie key rows)"
proof -
  have "sorted (map (\<lambda>x. (- key x, tie x)) (orderBy_desc tie key rows))"
    by (simp add: orderBy_desc_def)
  then have "sorted_wrt (\<lambda>a b. (- key a, tie a) \<le> (- key b, tie b)) (orderBy_desc tie key rows)"
    by (simp add: sorted_wrt_map)
  then show ?thesis
    by (rule sorted_wrt_mono_rel [rotated]) auto
qed

lemma orderBy_desc_Nil: "orderBy_desc tie key rows = [] \<longleftrightarrow> rows = []"
proof -
  have "length (orderBy_desc tie key rows) = length rows"
    by (simp add: orderBy_desc_def)
  then show ?thesis
    by (metis length_0_conv)
qed

lemma orderBy_desc_set: "set (orderBy_desc tie key rows) = set rows"
  by (simp add: orderBy_desc_def)

lemma orderBy_desc_mset: "mset (orderBy_desc tie key rows) = mset rows"
  by (simp add: orderBy_desc_def)

lemma position_nth:
  assumes "distinct ys" and "i < length ys"
  shows "position ys (ys ! i) = int i"
proof -
  let ?n = "length (takeWhile (\<lambda>y. y \<noteq> ys ! i) ys)"
  have "\<And>k. k < i \<Longrightarrow> ys ! k \<noteq> ys ! i"
    using assms by (simp add: nth_eq_iff_index_eq)
  then have lower: "i \<le> ?n"
    using assms(2) by (intro length_takeWhile_less_P_nth) simp_all
  have upper: "?n \<le> i"
  proof (rule ccontr)
    assume "\<not> ?n \<le> i"
    then have lt: "i < ?n"
      by simp
    then have "takeWhile (\<lambda>y. y \<noteq> ys ! i) ys ! i = ys ! i"
      by (rule takeWhile_nth)
    moreover from lt have "takeWhile (\<lambda>y. y \<noteq> ys ! i) ys ! i
        \<in> set (takeWhile (\<lambda>y. y \<noteq> ys ! i) ys)"
      by (rule nth_mem)
    ultimately show False
      by (auto dest: set_takeWhileD)
  qed
  from lower upper show ?thesis
    by (simp add: position_def)
qed

text \<open>
  The parameter \<open>tie\<close> leaves the order among equal keys open: every arrangement of
  distinct rows that is in descending order of the key is the result for some
  \<open>tie\<close>, namely the position of a row in that arrangement.
\<close>

lemma orderBy_desc_any_order:
  assumes perm: "mset ys = mset rows" and dist: "distinct rows"
    and desc: "sorted_wrt (\<lambda>a b. key b \<le> key a) ys"
  shows "orderBy_desc (position ys) key rows = ys"
proof -
  from perm dist have dys: "distinct ys"
    by (metis mset_eq_imp_distinct_iff)
  have pos: "position ys (ys ! i) = int i" if "i < length ys" for i
    using dys that by (rule position_nth)
  have inj: "inj_on (\<lambda>x. (- key x, position ys x)) (set rows)"
  proof (rule inj_onI)
    fix a b
    assume "a \<in> set rows" and "b \<in> set rows"
      and eq: "(- key a, position ys a) = (- key b, position ys b)"
    with perm have "a \<in> set ys" and "b \<in> set ys"
      by (metis mset_eq_setD)+
    then obtain i j where "i < length ys" "a = ys ! i" "j < length ys" "b = ys ! j"
      by (metis in_set_conv_nth)
    with eq pos show "a = b"
      by simp
  qed
  have "sorted_wrt (\<lambda>a b. (- key a, position ys a) \<le> (- key b, position ys b)) ys"
    unfolding sorted_wrt_iff_nth_less
  proof (intro allI impI)
    fix i j
    assume "i < j" and "j < length ys"
    with desc have "key (ys ! j) \<le> key (ys ! i)"
      by (simp add: sorted_wrt_iff_nth_less)
    with \<open>i < j\<close> \<open>j < length ys\<close> pos [of i] pos [of j]
    show "(- key (ys ! i), position ys (ys ! i)) \<le> (- key (ys ! j), position ys (ys ! j))"
      by simp
  qed
  then have "sorted (map (\<lambda>x. (- key x, position ys x)) ys)"
    by (simp add: sorted_wrt_map)
  with perm inj show ?thesis
    unfolding orderBy_desc_def by (intro sort_key_inj_key_eq) simp_all
qed

lemma r_created_at_hydrated:
  "r_created_at (hydrate_request s m a j r) = r_created_at r"
  by (simp add: hydrate_request_def request.defs request_with_details.defs)

lemma sorted_hydrated:
  "sorted_wrt (\<lambda>a b. r_created_at b \<le> r_created_at a)
     (map (hydrate_request s m a j) (orderBy_desc tie r_created_at rows))"
  using orderBy_desc_sorted [of r_created_at tie rows]
  by (simp add: sorted_wrt_map r_created_at_hydrated)

lemma hydrate_request_base:
  "r_id (hydrate_request s m a j r) = r_id r"
  "r_staff_id (hydrate_request s m a j r) = r_staff_id r"
  by (simp_all add: hydrate_request_def request.defs request_with_details.defs)

lemma getStaffRequests_shape:
  assumes "integer_column staffId" and "select_users_by_id staffId d = staff0 # others"
  shows "\<exists>m a j. getStaffRequests tie staffId d
           = Inr (map (hydrate_request staff0 m a j)
                    (orderBy_desc tie r_created_at
                       (filter (\<lambda>r. r_staff_id r = staffId) (requestsTable d))))"
proof (cases "orderBy_desc tie r_created_at
                (filter (\<lambda>r. r_staff_id r = staffId) (requestsTable d)) = []")
  case True
  with assms show ?thesis
    by (simp add: getStaffRequests_def)
next
  case False
  with assms show ?thesis
    by (simp add: getStaffRequests_def Let_def) blast
qed

text \<open>
  Claim C8, refuted at this input: 2147483648 is a staff id the procedure's input
  schema accepts and that resolves to no user, yet the handler does not reach its
  not-found error: the id does not fit the id column, and the user query fails
  with a storage error.
\<close>

theorem getStaffRequests_out_of_range_counterexample:
  "select_users_by_id 2147483648 example_db = []
   \<and> getStaffRequests r_id 2147483648 example_db
       = Inl (Error StorageError ''integer out of range'')"
  by (simp add: getStaffRequests_def integer_column_def select_users_by_id_def example_db_def
        example_user_def)

text \<open>
  Claim C8 as amended. For a staff id within the range of the id column: when it
  resolves to a user who has no request the handler returns the empty list, and
  when it resolves to no user it fails with the not-found error. For a staff id
  outside that range it fails with a storage error. The three results differ from
  each other. For a staff id in range that resolves to a user the handler returns
  a list: it holds that staff member's requests only, each request once, in
  descending order of created_at, whatever order the storage gives to requests
  with the same created_at.
\<close>

theorem getStaffRequests_outcomes:
  "(integer_column staffId \<and> select_users_by_id staffId d \<noteq> []
      \<and> filter (\<lambda>r. r_staff_id r = staffId) (requestsTable d) = []
    \<longrightarrow> getStaffRequests tie staffId d = Inr [])
   \<and> (integer_column staffId \<and> select_users_by_id staffId d = []
    \<longrightarrow> getStaffRequests tie staffId d
          = Inl (Error NotFound (''Staff member with id '' @ number_str staffId @ '' not found'')))
   \<and> (\<not> integer_column staffId
    \<longrightarrow> getStaffRequests tie staffId d = Inl (Error StorageError ''integer out of range''))
   \<and> (Inr [] :: error + request_with_details list) \<noteq> Inl (Error NotFound msg)
   \<and> (Inr [] :: error + request_with_details list) \<noteq> Inl (Error StorageError msg)
   \<and> (Inl (Error NotFound msg) :: error + request_with_details list)
        \<noteq> Inl (Error StorageError msg')
   \<and> (integer_column staffId \<and> select_users_by_id staffId d \<noteq> []
    \<longrightarrow> (\<exists>results. getStaffRequests tie staffId d = Inr results
          \<and> sorted_wrt (\<lambda>a b. r_created_at b \<le> r_created_at a) results
          \<and> list_all (\<lambda>r. r_staff_id r = staffId) results
          \<and> mset (map r_id results)
              = mset (map r_id (filter (\<lambda>r. r_staff_id r = staffId) (requestsTable d)))))"
proof (intro conjI impI)
  assume "integer_column staffId \<and> select_users_by_id staffId d \<noteq> []
      \<and> filter (\<lambda>r. r_staff_id r = staffId) (requestsTable d) = []"
  then show "getStaffRequests tie staffId d = Inr []"
    by (auto simp: getStaffRequests_def orderBy_desc_def split: list.splits)
next
  assume "integer_column staffId \<and> select_users_by_id staffId d = []"
  then show "getStaffRequests tie staffId d
          = Inl (Error NotFound (''Staff member with id '' @ number_str staffId @ '' not found''))"
    by (simp add: getStaffRequests_def)
next
  assume "\<not> integer_column staffId"
  then show "getStaffRequests tie staffId d = Inl (Error StorageError ''integer out of range'')"
    by (simp add: getStaffRequests_def)
next
  show "(Inr [] :: error + request_with_details list) \<noteq> Inl (Error NotFound msg)"
    by simp
next
  show "(Inr [] :: error + request_with_details list) \<noteq> Inl (Error StorageError msg)"
    by simp
next
  show "(Inl (Error NotFound msg) :: error + request_with_details list)
        \<noteq> Inl (Error StorageError msg')"
    by simp
next
  assume h: "integer_column staffId \<and> select_users_by_id staffId d \<noteq> []"
  then obtain staff0 others where u: "select_users_by_id staffId d = staff0 # others"
    by (cases "select_users_by_id staffId d") auto
  define rows where "rows = filter (\<lambda>r. r_staff_id r = staffId) (requestsTable d)"
  from h have "integer_column staffId"
    by simp
  from getStaffRequests_shape [OF this u] obtain m a j where
    res: "getStaffRequests tie staffId d
            = Inr (map (hydrate_request staff0 m a j) (orderBy_desc tie r_created_at rows))"
    unfolding rows_def by blast
  have ordered: "sorted_wrt (\<lambda>a b. r_created_at b \<le> r_created_at a)
      (map (hydrate_request staff0 m a j) (orderBy_desc tie r_created_at rows))"
    by (rule sorted_hydrated)
  have own: "list_all (\<lambda>r. r_staff_id r = staffId)
      (map (hydrate_request staff0 m a j) (orderBy_desc tie r_created_at rows))"
    by (simp add: list_all_iff orderBy_desc_set rows_def hydrate_request_base)
  have "map r_id (map (hydrate_request staff0 m a j) (orderBy_desc tie r_created_at rows))
      = map r_id (orderBy_desc tie r_created_at rows)"
    by (simp add: hydrate_request_base)
  then have ids: "mset (map r_id (map (hydrate_request staff0 m a j)
                                   (orderBy_desc tie r_created_at rows)))
      = mset (map r_id rows)"
    by (simp only: mset_map orderBy_desc_mset)
  from res ordered own ids
  show "\<exists>results. getStaffRequests tie staffId d = Inr results
          \<and> sorted_wrt (\<lambda>a b. r_created_at b \<le> r_created_at a) results
          \<and> list_all (\<lambda>r. r_staff_id r = staffId) results
          \<and> mset (map r_id results)
              = mset (map r_id (filter (\<lambda>r. r_staff_id r = staffId) (requestsTable d)))"
    unfolding rows_def by blast
qed

theorem getStaffRequests_outcomes_witness:
  "integer_column 5 \<and> select_users_by_id 5 example_db \<noteq> []
   \<and> getStaffRequests r_id 5 example_db = Inr []
   \<and> integer_column 9 \<and> select_users_by_id 9 example_db = []
   \<and> getStaffRequests r_id 9 example_db
        = Inl (Error NotFound ''Staff member with id 9 not found'')
   \<and> \<not> integer_column 2147483648
   \<and> getStaffRequests r_id 2147483648 example_db
        = Inl (Error StorageError ''integer out of range'')
   \<and> integer_column 3 \<and> select_users_by_id 3 example_db \<noteq> []
   \<and> (\<exists>results. getStaffRequests r_id 3 example_db = Inr results
         \<and> mset (map r_id results) = mset [1, 2, 3]
         \<and> sorted_wrt (\<lambda>a b. r_created_at b \<le> r_created_at a) results)"
proof -
  have i: "integer_column 5" "integer_column 9" "integer_column 3"
    "\<not> integer_column 2147483648"
    by (simp_all add: integer_column_def)
  have u5: "select_users_by_id 5 example_db \<noteq> []"
    and r5: "filter (\<lambda>r. r_staff_id r = 5) (requestsTable example_db) = []"
    and u9: "select_users_by_id 9 example_db = []"
    and u3: "select_users_by_id 3 example_db \<noteq> []"
    by (simp_all add: example_simps)
  have n9: "number_str 9 = ''9''"
    by (simp add: number_str_def digit_char_def)
  have r3: "map r_id (filter (\<lambda>r. r_staff_id r = 3) (requestsTable example_db)) = [1, 2, 3]"
    by (simp add: example_db_def example_request_def)
  have a: "getStaffRequests r_id 5 example_db = Inr []"
    using getStaffRequests_outcomes [of 5 example_db r_id, THEN conjunct1] i u5 r5 by simp
  have b: "getStaffRequests r_id 9 example_db
        = Inl (Error NotFound ''Staff member with id 9 not found'')"
    using getStaffRequests_outcomes [of 9 example_db r_id, THEN conjunct2, THEN conjunct1]
      i u9 n9
    by simp
  have c: "getStaffRequests r_id 2147483648 example_db
        = Inl (Error StorageError ''integer out of range'')"
    using getStaffRequests_outcomes [of 2147483648 example_db r_id,
            THEN conjunct2, THEN conjunct2, THEN conjunct1] i
    by simp
  from getStaffRequests_outcomes [of 3 example_db r_id, THEN conjunct2, THEN conjunct2,
         THEN conjunct2, THEN conjunct2, THEN conjunct2, THEN conjunct2, rule_format,
         OF conjI [OF i(3) u3]]
  obtain results where e: "getStaffRequests r_id 3 example_db = Inr results"
    "sorted_wrt (\<lambda>a b. r_created_at b \<le> r_created_at a) results"
    "mset (map r_id results)
       = mset (map r_id (filter (\<lambda>r. r_staff_id r = 3) (requestsTable example_db)))"
    by (elim exE conjE)
  from e r3 have "getStaffRequests r_id 3 example_db = Inr results
         \<and> mset (map r_id results) = mset [1, 2, 3]
         \<and> sorted_wrt (\<lambda>a b. r_created_at b \<le> r_created_at a) results"
    by simp
  then have f: "\<exists>results. getStaffRequests r_id 3 example_db = Inr results
         \<and> mset (map r_id results) = mset [1, 2, 3]
         \<and> sorted_wrt (\<lambda>a b. r_created_at b \<le> r_created_at a) results"
    by (rule exI)
  from i u5 a u9 b c u3 f show ?thesis
    by (intro conjI)
qed

section \<open>Request creation: prices, totals, persistence\<close>

lemma itemPriceMap_snoc:
  "itemPriceMap (xs @ [y]) = (itemPriceMap xs)(i_id y \<mapsto> i_estimated_price y)"
  by (simp add: itemPriceMap_def)

lemma itemPriceMap_lookup:
  assumes "distinct (map i_id found)" and "x \<in> set found"
  shows "itemPriceMap found (i_id x) = Some (i_estimated_price x)"
  using assms
proof (induction found rule: rev_induct)
  case Nil
  then show ?case by simp
next
  case (snoc y ys)
  show ?case
  proof (cases "x = y")
    case True
    then show ?thesis by (simp add: itemPriceMap_snoc)
  next
    case False
    with snoc.prems have in_ys: "x \<in> set ys"
      by auto
    have "i_id y \<notin> i_id ` set ys"
      using snoc.prems(1) by simp
    with in_ys have "i_id x \<noteq> i_id y"
      by (metis imageI)
    with snoc in_ys show ?thesis
      by (simp add: itemPriceMap_snoc)
  qed
qed

lemma found_two:
  assumes pk: "distinct (map i_id (itemsTable d))"
    and a: "A \<in> set (itemsTable d)" "i_is_active A"
    and b: "B \<in> set (itemsTable d)" "i_is_active B"
    and ne: "i_id A \<noteq> i_id B"
  defines "found \<equiv> select_active_items [i_id A, i_id B] d"
  shows "length found = 2" and "A \<in> set found" and "B \<in> set found"
    and "distinct (map i_id found)"
proof -
  have inj: "inj_on i_id (set (itemsTable d))" and dist: "distinct (itemsTable d)"
    using pk by (simp_all add: distinct_map)
  have "set found = {A, B}"
    using a b inj by (auto simp: found_def select_active_items_def dest: inj_onD)
  moreover have "distinct found"
    using dist by (simp add: found_def select_active_items_def)
  moreover have "A \<noteq> B"
    using ne by auto
  ultimately show "length found = 2"
    by (metis card_2_iff distinct_card)
  show "A \<in> set found" "B \<in> set found"
    using a b by (simp_all add: found_def select_active_items_def)
  show "distinct (map i_id found)"
    using pk by (simp add: found_def select_active_items_def distinct_map_filter)
qed

text \<open>
  Claim C9. In any store whose item ids are unique, with an active staff member, an
  active item priced 5.99 and another active item priced 12.50, creating a request
  for 10 of the first and 2 of the second succeeds, and the total_estimated_cost of
  the request returned, which is the row appended to the requests table, is 84.90
  (8490 cents).
\<close>

theorem createRequest_round_trip:
  assumes "select_active_user (cr_staff_id input) d \<noteq> []"
    and "distinct (map i_id (itemsTable d))"
    and "A \<in> set (itemsTable d)" and "i_is_active A" and "i_estimated_price A = Some 599"
    and "B \<in> set (itemsTable d)" and "i_is_active B" and "i_estimated_price B = Some 1250"
    and "i_id A \<noteq> i_id B"
    and "cr_items input =
           [\<lparr> li_item_id = i_id A, li_quantity = 10, li_notes = notesA \<rparr>,
            \<lparr> li_item_id = i_id B, li_quantity = 2, li_notes = notesB \<rparr>]"
  shows "\<exists>request d'. createRequest now input d = (Inr request, d')
           \<and> r_total_estimated_cost request = Some 8490
           \<and> requestsTable d' = requestsTable d @ [request]"
proof -
  define found where "found = select_active_items [i_id A, i_id B] d"
  have len: "length found = 2" and mem: "A \<in> set found" "B \<in> set found"
    and pk: "distinct (map i_id found)"
    unfolding found_def using assms(2,3,4,6,7,9) by (rule found_two)+
  have pa: "itemPriceMap found (i_id A) = Some (Some 599)"
    using itemPriceMap_lookup [OF pk mem(1)] assms(5) by simp
  have pb: "itemPriceMap found (i_id B) = Some (Some 1250)"
    using itemPriceMap_lookup [OF pk mem(2)] assms(8) by simp
  have tot: "totalEstimatedCost (itemPriceMap found) (cr_items input) = Some 8490"
    by (simp add: totalEstimatedCost_def hasAllPrices_def sum_costs_def assms(10) pa pb)
  have ins: "list_all (\<lambda>li. integer_column (li_quantity li)) (cr_items input)"
    by (simp add: assms(10) integer_column_def)
  have ids: "map li_item_id (cr_items input) = [i_id A, i_id B]"
    by (simp add: assms(10))
  have ne: "cr_items input \<noteq> []"
    by (simp add: assms(10))
  show ?thesis
    using assms(1) len tot ins ne
    by (simp add: createRequest_def Let_def ids found_def [symmetric] insert_request_items_def
          new_request_def truthy_amount_def numeric_column_def)
qed

theorem createRequest_round_trip_witness:
  "\<exists>request d'. createRequest 1000 (example_order [(1, 10), (2, 2)]) example_db = (Inr request, d')
           \<and> r_total_estimated_cost request = Some 8490
           \<and> requestsTable d' = requestsTable example_db @ [request]"
proof -
  have staff: "select_active_user (cr_staff_id (example_order [(1, 10), (2, 2)])) example_db \<noteq> []"
    by (simp add: select_active_user_def example_db_def example_order_def example_user_def)
  have pk: "distinct (map i_id (itemsTable example_db))"
    by (simp add: example_db_def example_item_def)
  have a: "example_item 1 ''Notebook'' 2 (Some 599) \<in> set (itemsTable example_db)"
    "i_is_active (example_item 1 ''Notebook'' 2 (Some 599))"
    "i_estimated_price (example_item 1 ''Notebook'' 2 (Some 599)) = Some 599"
    by (simp_all add: example_db_def example_item_def)
  have b: "example_item 2 ''Pens'' 2 (Some 1250) \<in> set (itemsTable example_db)"
    "i_is_active (example_item 2 ''Pens'' 2 (Some 1250))"
    "i_estimated_price (example_item 2 ''Pens'' 2 (Some 1250)) = Some 1250"
    by (simp_all add: example_db_def example_item_def)
  have ne: "i_id (example_item 1 ''Notebook'' 2 (Some 599)) \<noteq> i_id (example_item 2 ''Pens'' 2 (Some 1250))"
    by (simp add: example_item_def)
  have lines: "cr_items (example_order [(1, 10), (2, 2)]) =
           [\<lparr> li_item_id = i_id (example_item 1 ''Notebook'' 2 (Some 599)), li_quantity = 10,
               li_notes = None \<rparr>,
            \<lparr> li_item_id = i_id (example_item 2 ''Pens'' 2 (Some 1250)), li_quantity = 2,
               li_notes = None \<rparr>]"
    by (simp add: example_order_def example_item_def)
  show ?thesis
    by (rule createRequest_round_trip [OF staff pk a b ne lines])
qed


text \<open>
  What the handler stores as the estimated total of a request it creates, in terms
  of the line items it stores with it: null when a line item has no snapshot price;
  otherwise the sum of unit cost times quantity, except that a sum of zero is
  stored as null.
\<close>

lemma hasAllPrices_snapshot:
  "hasAllPrices m lis \<longleftrightarrow> list_all (\<lambda>li. snapshot_price m (li_item_id li) \<noteq> None) lis"
  by (induction lis) (auto simp: hasAllPrices_def snapshot_price_def split: option.splits)

lemma fold_costs:
  "fold (\<lambda>reqItem acc.
           acc + (case m (li_item_id reqItem) of Some (Some p) \<Rightarrow> p | _ \<Rightarrow> 0)
                   * li_quantity reqItem) lis a
     = a + sum_list (map (\<lambda>li. (case snapshot_price m (li_item_id li) of None \<Rightarrow> 0 | Some p \<Rightarrow> p)
                               * li_quantity li) lis)"
  by (induction lis arbitrary: a) (auto simp: snapshot_price_def split: option.splits)

lemma sum_costs_snapshot:
  "sum_costs m lis
     = sum_list (map (\<lambda>li. (case snapshot_price m (li_item_id li) of None \<Rightarrow> 0 | Some p \<Rightarrow> p)
                           * li_quantity li) lis)"
  by (simp add: sum_costs_def fold_costs)

lemma new_rows_costs:
  "list_all (\<lambda>ri. ri_estimated_unit_cost ri \<noteq> None)
     (map (\<lambda>(k, li). new_request_item now m rid (s + int k) li) (enumerate n lis))
     \<longleftrightarrow> list_all (\<lambda>li. snapshot_price m (li_item_id li) \<noteq> None) lis"
  "sum_list (map line_cost
     (map (\<lambda>(k, li). new_request_item now m rid (s + int k) li) (enumerate n lis)))
     = sum_list (map (\<lambda>li. (case snapshot_price m (li_item_id li) of None \<Rightarrow> 0 | Some p \<Rightarrow> p)
                           * li_quantity li) lis)"
  by (induction lis arbitrary: n; simp add: new_request_item_def line_cost_def)+

lemma createRequest_total_estimate:
  assumes "createRequest now input d = (Inr request, d')"
  shows "\<exists>rows. requestItemsTable d' = requestItemsTable d @ rows
           \<and> length rows = length (cr_items input)
           \<and> r_total_estimated_cost request
               = (if list_all (\<lambda>ri. ri_estimated_unit_cost ri \<noteq> None) rows
                  then truthy_amount (Some (sum_list (map line_cost rows)))
                  else None)"
proof -
  define m where
    "m = itemPriceMap (select_active_items (map li_item_id (cr_items input)) d)"
  define rows where
    "rows = map (\<lambda>(k, li). new_request_item now m (requests_id_seq d)
                              (request_items_id_seq d + int k) li)
              (enumerate 0 (cr_items input))"
  from assms have req: "request = new_request now input
      (truthy_amount (totalEstimatedCost m (cr_items input))) (requests_id_seq d)"
    and tab: "requestItemsTable d' = requestItemsTable d @ rows"
    by (auto simp: createRequest_def Let_def insert_request_items_def m_def rows_def new_request_def
          split: if_splits sum.splits)
  have priced: "list_all (\<lambda>ri. ri_estimated_unit_cost ri \<noteq> None) rows
                  \<longleftrightarrow> hasAllPrices m (cr_items input)"
    unfolding rows_def hasAllPrices_snapshot by (rule new_rows_costs(1))
  have costs: "sum_list (map line_cost rows) = sum_costs m (cr_items input)"
    unfolding rows_def sum_costs_snapshot by (rule new_rows_costs(2))
  have "r_total_estimated_cost request
          = truthy_amount (totalEstimatedCost m (cr_items input))"
    by (simp add: req new_request_def)
  also have "\<dots> = (if list_all (\<lambda>ri. ri_estimated_unit_cost ri \<noteq> None) rows
                  then truthy_amount (Some (sum_list (map line_cost rows)))
                  else None)"
    unfolding priced costs by (simp add: totalEstimatedCost_def truthy_amount_def)
  finally show ?thesis
    using tab by (auto simp: rows_def)
qed

lemmas createRequest_simps =
  createRequest_def select_active_user_def select_active_items_def itemPriceMap_def
  totalEstimatedCost_def hasAllPrices_def sum_costs_def truthy_amount_def numeric_column_def
  insert_request_items_def integer_column_def snapshot_price_def
  example_db_def example_order_def example_user_def example_item_def

text \<open>
  Claim C3, at the input where the code departs from it: item 4 is active and priced
  0.00. A request for 3 of it is created; its only line item has the snapshot price
  0.00, which is not null, and the sum of unit cost times quantity is 0.00; yet the
  stored total_estimated_cost is null, because the total is tested for truthiness
  before it is written.
\<close>

theorem createRequest_zero_total:
  "fst (createRequest 1000 (example_order [(4, 3)]) example_db)
     = Inr (new_request 1000 (example_order [(4, 3)]) None 4)
   \<and> r_total_estimated_cost (new_request 1000 (example_order [(4, 3)]) None 4) = None
   \<and> requestsTable (snd (createRequest 1000 (example_order [(4, 3)]) example_db))
       = requestsTable example_db @ [new_request 1000 (example_order [(4, 3)]) None 4]
   \<and> map (\<lambda>ri. (ri_request_id ri, ri_item_id ri, ri_quantity ri, ri_estimated_unit_cost ri))
        (requestItemsTable (snd (createRequest 1000 (example_order [(4, 3)]) example_db)))
       = [(3, 5, 1, None), (3, 6, 2, None), (4, 4, 3, Some 0)]"
  by (simp add: createRequest_simps Let_def new_request_item_def example_line_def)
     (simp add: new_request_def)

text \<open>
  Claim C5, at the input where the code departs from it: item 1 is active, and a
  request that lists it in two line items is refused by the item check, the store
  unchanged. The check compares the number of active items found (one) with the
  number of line items (two), not with the number of distinct ids.
\<close>

theorem createRequest_duplicate_item:
  "select_active_items [1] example_db = [example_item 1 ''Notebook'' 2 (Some 599)]
   \<and> createRequestInputSchema (example_order [(1, 1), (1, 2)])
   \<and> createRequest 1000 (example_order [(1, 1), (1, 2)]) example_db
       = (Inl (Error NotFound ''One or more items not found or inactive''), example_db)"
  by (simp add: createRequest_simps createRequestInputSchema_def Let_def)


lemma new_rows_proj:
  "map ri_request_id
     (map (\<lambda>(k, li). new_request_item now m rid (s + int k) li) (enumerate n lis))
     = map (\<lambda>li. rid) lis"
  "map ri_item_id
     (map (\<lambda>(k, li). new_request_item now m rid (s + int k) li) (enumerate n lis))
     = map li_item_id lis"
  "map ri_quantity
     (map (\<lambda>(k, li). new_request_item now m rid (s + int k) li) (enumerate n lis))
     = map li_quantity lis"
  by (induction lis arbitrary: n; simp add: new_request_item_def)+

lemma insert_request_items_rows:
  assumes "insert_request_items now m rid lis d1 = Inr d2"
  shows "\<exists>rows. requestItemsTable d2 = requestItemsTable d1 @ rows
           \<and> map ri_request_id rows = map (\<lambda>li. rid) lis
           \<and> map ri_item_id rows = map li_item_id lis
           \<and> map ri_quantity rows = map li_quantity lis
           \<and> requestsTable d2 = requestsTable d1 \<and> usersTable d2 = usersTable d1
           \<and> categoriesTable d2 = categoriesTable d1 \<and> itemsTable d2 = itemsTable d1"
proof -
  from assms have "d2 = d1\<lparr> requestItemsTable := requestItemsTable d1
                      @ map (\<lambda>(k, li). new_request_item now m rid
                                         (request_items_id_seq d1 + int k) li)
                          (enumerate 0 lis),
                    request_items_id_seq := request_items_id_seq d1 + int (length lis) \<rparr>"
    by (simp add: insert_request_items_def split: if_splits)
  then show ?thesis
    by (simp add: new_rows_proj del: map_map)
qed

text \<open>
  Claim C4, refuted at this input: a request of the active staff member 3 for
  2147483648 pieces of item 3, which is active and has no price. The input passes
  the schema and both validations, the request row is inserted, and the line-item
  insert is rejected because the quantity does not fit the integer column. The
  call fails, and the request row of the attempt is still in the store.
\<close>

theorem createRequest_atomicity_counterexample:
  "createRequestInputSchema (example_order [(3, 2147483648)])
   \<and> fst (createRequest 1000 (example_order [(3, 2147483648)]) example_db)
       = Inl (Error StorageError ''integer out of range'')
   \<and> requestsTable (snd (createRequest 1000 (example_order [(3, 2147483648)]) example_db))
       = requestsTable example_db
           @ [new_request 1000 (example_order [(3, 2147483648)]) None 4]
   \<and> requestItemsTable (snd (createRequest 1000 (example_order [(3, 2147483648)]) example_db))
       = requestItemsTable example_db"
  by (simp add: createRequest_simps createRequestInputSchema_def Let_def)

text \<open>
  Claim C4 as amended. For an input that passes the schema: when the staff member
  or the items do not validate, or the estimated total does not fit its column, the
  call fails and the store is unchanged; otherwise, when every quantity fits the
  integer column, the call succeeds and the store has gained the request row and
  one line-item row per input entry, in order, all pointing at the request; and
  otherwise the call fails with the storage error of the line-item insert, and the
  store has gained the request row and no line item.
\<close>

theorem createRequest_persistence:
  assumes "createRequestInputSchema input"
  shows "(if select_active_user (cr_staff_id input) d \<noteq> []
             \<and> length (select_active_items (map li_item_id (cr_items input)) d)
                 = length (cr_items input)
             \<and> numeric_column (truthy_amount (totalEstimatedCost
                  (itemPriceMap (select_active_items (map li_item_id (cr_items input)) d))
                  (cr_items input)))
          then
            (if list_all (\<lambda>li. integer_column (li_quantity li)) (cr_items input)
             then
               (\<exists>request d' rows. createRequest now input d = (Inr request, d')
                  \<and> requestsTable d' = requestsTable d @ [request]
                  \<and> r_id request = requests_id_seq d \<and> r_status request = pending
                  \<and> requestItemsTable d' = requestItemsTable d @ rows
                  \<and> map ri_request_id rows = map (\<lambda>li. r_id request) (cr_items input)
                  \<and> map ri_item_id rows = map li_item_id (cr_items input)
                  \<and> map ri_quantity rows = map li_quantity (cr_items input))
             else
               (\<exists>request d'. createRequest now input d
                                = (Inl (Error StorageError ''integer out of range''), d')
                  \<and> requestsTable d' = requestsTable d @ [request]
                  \<and> r_id request = requests_id_seq d \<and> r_status request = pending
                  \<and> requestItemsTable d' = requestItemsTable d))
          else (\<exists>e. createRequest now input d = (Inl e, d)))
         \<and> usersTable (snd (createRequest now input d)) = usersTable d
         \<and> categoriesTable (snd (createRequest now input d)) = categoriesTable d
         \<and> itemsTable (snd (createRequest now input d)) = itemsTable d"
proof -
  from assms have ne: "cr_items input \<noteq> []"
    by (simp add: createRequestInputSchema_def)
  define m where
    "m = itemPriceMap (select_active_items (map li_item_id (cr_items input)) d)"
  define estimate where "estimate = truthy_amount (totalEstimatedCost m (cr_items input))"
  define request where "request = new_request now input estimate (requests_id_seq d)"
  define d1 where "d1 = d\<lparr> requestsTable := requestsTable d @ [request],
                            requests_id_seq := requests_id_seq d + 1 \<rparr>"
  have unfold: "createRequest now input d =
      (if select_active_user (cr_staff_id input) d = []
       then (Inl (Error Forbidden ''Staff user not found or inactive''), d)
       else if length (select_active_items (map li_item_id (cr_items input)) d)
                 \<noteq> length (cr_items input)
       then (Inl (Error NotFound ''One or more items not found or inactive''), d)
       else if \<not> numeric_column estimate
       then (Inl (Error StorageError ''numeric field overflow''), d)
       else (case insert_request_items now m (r_id request) (cr_items input) d1 of
               Inl e \<Rightarrow> (Inl e, d1) | Inr d2 \<Rightarrow> (Inr request, d2)))"
    by (simp add: createRequest_def Let_def m_def estimate_def request_def d1_def
          split: sum.splits)
  have req: "r_id request = requests_id_seq d" "r_status request = pending"
    by (simp_all add: request_def new_request_def)
  have d1: "requestsTable d1 = requestsTable d @ [request]"
    "requestItemsTable d1 = requestItemsTable d" "usersTable d1 = usersTable d"
    "categoriesTable d1 = categoriesTable d" "itemsTable d1 = itemsTable d"
    by (simp_all add: d1_def)
  show ?thesis
  proof (cases "list_all (\<lambda>li. integer_column (li_quantity li)) (cr_items input)")
    case True
    with ne obtain d2 where ins: "insert_request_items now m (r_id request) (cr_items input) d1 = Inr d2"
      by (simp add: insert_request_items_def)
    from insert_request_items_rows [OF ins] obtain rows where
      rows: "requestItemsTable d2 = requestItemsTable d1 @ rows"
        "map ri_request_id rows = map (\<lambda>li. r_id request) (cr_items input)"
        "map ri_item_id rows = map li_item_id (cr_items input)"
        "map ri_quantity rows = map li_quantity (cr_items input)"
      and same: "requestsTable d2 = requestsTable d1" "usersTable d2 = usersTable d1"
        "categoriesTable d2 = categoriesTable d1" "itemsTable d2 = itemsTable d1"
      by blast
    from True unfold ins req d1 rows same show ?thesis
      by (auto simp: m_def [symmetric] estimate_def [symmetric])
  next
    case False
    with ne have ins: "insert_request_items now m (r_id request) (cr_items input) d1
        = Inl (Error StorageError ''integer out of range'')"
      by (simp add: insert_request_items_def)
    from False unfold ins req d1 show ?thesis
      by (auto simp: m_def [symmetric] estimate_def [symmetric])
  qed
qed

theorem createRequest_persistence_witness:
  "createRequestInputSchema (example_order [(3, 2147483648)])
   \<and> (\<exists>request d'. createRequest 1000 (example_order [(3, 2147483648)]) example_db
                      = (Inl (Error StorageError ''integer out of range''), d')
         \<and> requestsTable d' = requestsTable example_db @ [request]
         \<and> r_id request = 4 \<and> r_status request = pending
         \<and> requestItemsTable d' = requestItemsTable example_db)
   \<and> createRequestInputSchema (example_order [(1, 10), (2, 2)])
   \<and> (\<exists>request d' rows. createRequest 1000 (example_order [(1, 10), (2, 2)]) example_db
                           = (Inr request, d')
         \<and> requestsTable d' = requestsTable example_db @ [request]
         \<and> requestItemsTable d' = requestItemsTable example_db @ rows
         \<and> map ri_request_id rows = [4, 4]
         \<and> map ri_item_id rows = [1, 2]
         \<and> map ri_quantity rows = [10, 2])"
proof -
  have s1: "createRequestInputSchema (example_order [(3, 2147483648)])"
    and s2: "createRequestInputSchema (example_order [(1, 10), (2, 2)])"
    by (simp_all add: createRequestInputSchema_def example_order_def)
  have c1: "select_active_user (cr_staff_id (example_order [(3, 2147483648)])) example_db \<noteq> []
     \<and> length (select_active_items (map li_item_id (cr_items (example_order [(3, 2147483648)])))
                 example_db)
         = length (cr_items (example_order [(3, 2147483648)]))
     \<and> numeric_column (truthy_amount (totalEstimatedCost
          (itemPriceMap (select_active_items
             (map li_item_id (cr_items (example_order [(3, 2147483648)]))) example_db))
          (cr_items (example_order [(3, 2147483648)]))))
     \<and> \<not> list_all (\<lambda>li. integer_column (li_quantity li))
            (cr_items (example_order [(3, 2147483648)]))"
    by (simp add: createRequest_simps)
  have c2: "select_active_user (cr_staff_id (example_order [(1, 10), (2, 2)])) example_db \<noteq> []
     \<and> length (select_active_items (map li_item_id (cr_items (example_order [(1, 10), (2, 2)])))
                 example_db)
         = length (cr_items (example_order [(1, 10), (2, 2)]))
     \<and> numeric_column (truthy_amount (totalEstimatedCost
          (itemPriceMap (select_active_items
             (map li_item_id (cr_items (example_order [(1, 10), (2, 2)]))) example_db))
          (cr_items (example_order [(1, 10), (2, 2)]))))
     \<and> list_all (\<lambda>li. integer_column (li_quantity li))
            (cr_items (example_order [(1, 10), (2, 2)]))"
    by (simp add: createRequest_simps)
  have v: "requests_id_seq example_db = 4"
    "map li_item_id (cr_items (example_order [(1, 10), (2, 2)])) = [1, 2]"
    "map li_quantity (cr_items (example_order [(1, 10), (2, 2)])) = [10, 2]"
    by (simp_all add: example_db_def example_order_def)
  have a: "\<exists>request d'. createRequest 1000 (example_order [(3, 2147483648)]) example_db
                      = (Inl (Error StorageError ''integer out of range''), d')
         \<and> requestsTable d' = requestsTable example_db @ [request]
         \<and> r_id request = 4 \<and> r_status request = pending
         \<and> requestItemsTable d' = requestItemsTable example_db"
    using createRequest_persistence [OF s1, of example_db 1000, THEN conjunct1] c1
    by (simp add: v)
  have b: "\<exists>request d' rows. createRequest 1000 (example_order [(1, 10), (2, 2)]) example_db
                           = (Inr request, d')
         \<and> requestsTable d' = requestsTable example_db @ [request]
         \<and> requestItemsTable d' = requestItemsTable example_db @ rows
         \<and> map ri_request_id rows = [4, 4]
         \<and> map ri_item_id rows = [1, 2]
         \<and> map ri_quantity rows = [10, 2]"
  proof -
    from createRequest_persistence [OF s2, of example_db 1000, THEN conjunct1] c2
    obtain request d' rows where
      r: "createRequest 1000 (example_order [(1, 10), (2, 2)]) example_db = (Inr request, d')"
        "requestsTable d' = requestsTable example_db @ [request]"
        "r_id request = requests_id_seq example_db"
        "requestItemsTable d' = requestItemsTable example_db @ rows"
        "map ri_request_id rows
           = map (\<lambda>li. r_id request) (cr_items (example_order [(1, 10), (2, 2)]))"
        "map ri_item_id rows = map li_item_id (cr_items (example_order [(1, 10), (2, 2)]))"
        "map ri_quantity rows = map li_quantity (cr_items (example_order [(1, 10), (2, 2)]))"
      by auto
    from r(5) r(3) have "map ri_request_id rows = [4, 4]"
      by (simp add: example_order_def example_db_def)
    with r v show ?thesis
      by (intro exI [of _ request] exI [of _ d'] exI [of _ rows]) simp
  qed
  from s1 a s2 b show ?thesis
    by (intro conjI)
qed

section \<open>Top categories of the report: what is summed\<close>

text \<open>
  Claim C6, at the input where the code departs from it: request 3 is the only
  request with line items, it has two of them, both for items of the category
  Electronics, and its actual cost is 100.00. The report counts one request for
  Electronics, and gives 200.00 as its total amount: the sum runs over the joined
  rows, one per line item, while the count is over distinct request ids. There is
  one category in the report, so the order of ties plays no part.
\<close>

theorem topCategories_double_count:
  "map r_actual_cost (select_requests_by_id 3 example_db) = [Some 10000]
   \<and> map ri_request_id (requestItemsTable example_db) = [3, 3]
   \<and> topCategories tie example_db
       = [\<lparr> categoryName = ''Electronics'', requestCount = 1, totalAmount = 20000 \<rparr>]"
  by (simp add: topCategories_def category_join_def group_key_def count_distinct_requests_def
        sum_actual_cost_def orderBy_desc_def select_requests_by_id_def Let_def
        example_db_def example_request_def example_line_def example_item_def
        example_category_def)


text \<open>
  What the query does guarantee: at most five entries, in descending order of the
  number of distinct requests.
\<close>

lemma topCategories_limit_order:
  "length (topCategories tie d) \<le> 5
   \<and> sorted_wrt (\<lambda>a b. requestCount b \<le> requestCount a) (topCategories tie d)"
  by (simp add: topCategories_def Let_def sorted_wrt_take orderBy_desc_sorted)


end
